theory Spec2Isabelle
  imports Complex_Main "HOL-Library.Sublist"
begin

section \<open>Data model\<close>

text \<open>
  The node is written in TypeScript. Its classes become records with the fields of the
  source. A JavaScript \<open>number\<close> that holds an index, an amount, a difficulty or a
  millisecond timestamp is modelled as a mathematical integer, which stands for the
  double with that value. Three computations are modelled in double arithmetic, each
  operation returning the exact result rounded to the nearest double: the running total
  of \<open>findTxOutsForAmount\<close>, the time taken \<open>timestamp / 1000 - timestamp / 1000\<close> of
  \<open>adjustDifficulty\<close> and the sum of \<open>Math.pow(2, difficulty)\<close> of
  \<open>getAccumulatedDifficulty\<close>. The sums of amounts that \<open>validateTransaction\<close>
  compares are sums of integers.
  The type guards of the source (\<open>typeof x === 'number'\<close> and the like)
  hold of every value of the record types and are written as \<open>True\<close>.

  \<open>UnspentTxOut\<close> has the field names of \<open>TxIn\<close> and \<open>TxOut\<close> in the
  source; its fields carry the suffix \<open>_u\<close> here. \<open>Transaction.id\<close> is
  \<open>id_tx\<close> and \<open>Block.proof\<close> is \<open>proof_b\<close>.
\<close>

record TxIn =
  txOutId :: string
  txOutIndex :: int
  signature :: string

record TxOut =
  address :: string
  amount :: int

record Transaction =
  id_tx :: string
  txIns :: "TxIn list"
  txOuts :: "TxOut list"

record UnspentTxOut =
  txOutId_u :: string
  txOutIndex_u :: int
  address_u :: string
  amount_u :: int

record Block =
  index :: int
  timestamp :: int
  transactions :: "Transaction list"
  hash :: string
  previousHash :: string
  difficulty :: int
  proof_b :: int

text \<open>
  The primitives of the libraries \<open>crypto-js\<close> and \<open>elliptic\<close> are parameters of
  the model: \<open>sha256\<close> is \<open>sha256(s).toString()\<close>, \<open>verify a m s\<close> is
  \<open>ec.keyFromPublic(a, 'hex').verify(m, s)\<close> (an exception of the library counts as
  a failed verification), \<open>sign k m\<close> is \<open>ec.keyFromPrivate(k, 'hex').sign(m).toDER('hex')\<close>
  and \<open>publicKey k\<close> is the uncompressed hex encoding of the public key of \<open>k\<close>.
\<close>

record crypto =
  sha256 :: "string \<Rightarrow> string"
  verify :: "string \<Rightarrow> string \<Rightarrow> string \<Rightarrow> bool"
  sign :: "string \<Rightarrow> string \<Rightarrow> string"
  publicKey :: "string \<Rightarrow> string"

datatype error =
    InvalidBlockTransactions
  | InvalidPoolTx
  | NotEnoughCoins
  | ReferencedUTxONotFound
  | InvalidPrivateKey
  | TypeError
  | RangeError

section \<open>Numbers in template strings\<close>

text \<open>\<open>`${n}`\<close> for an integer \<open>n\<close>: its decimal digits, with a minus sign when negative.\<close>

definition digitChar :: "nat \<Rightarrow> char" where
  "digitChar d = ''0123456789'' ! d"

fun digits :: "nat \<Rightarrow> string" where
  "digits n = (if n < 10 then [digitChar n] else digits (n div 10) @ [digitChar (n mod 10)])"

declare digits.simps [simp del]

definition numberToString :: "int \<Rightarrow> string" where
  "numberToString i = (if i < 0 then CHR ''-'' # digits (nat (- i)) else digits (nat i))"

section \<open>Arithmetic on doubles\<close>

text \<open>
  A finite double is a rational \<open>m * 2 ^ (e - 52)\<close> with an integer \<open>m\<close> of less
  than 54 bits and \<open>- 1022 \<le> e \<le> 1023\<close>. An arithmetic operation of JavaScript
  returns the exact result rounded to the nearest such number, a tie going to the even
  \<open>m\<close>. \<open>bitLength n\<close> is the number of binary digits of \<open>n\<close>; \<open>exponentOf x\<close>,
  for a positive \<open>x\<close>, is the \<open>e\<close> with \<open>2 ^ e \<le> x < 2 ^ (e + 1)\<close>; below
  \<open>2 ^ - 1022\<close> the spacing of the doubles stays \<open>2 ^ - 1074\<close>. \<open>roundToDouble\<close>
  leaves the exponent unbounded above: a result of magnitude \<open>2 ^ 1024\<close> or more stands
  for an overflow.
\<close>

fun bitLength :: "nat \<Rightarrow> nat" where
  "bitLength n = (if n = 0 then 0 else Suc (bitLength (n div 2)))"

declare bitLength.simps [simp del]

definition exponentOf :: "rat \<Rightarrow> int" where
  "exponentOf x =
     (if 1 \<le> x then int (bitLength (nat \<lfloor>x\<rfloor>)) - 1
      else - int (bitLength (nat (\<lceil>1 / x\<rceil> - 1))))"

definition roundHalfEven :: "rat \<Rightarrow> int" where
  "roundHalfEven x =
     (let f = \<lfloor>x\<rfloor>; r = x - of_int f
      in if r < 1 / 2 then f else if 1 / 2 < r then f + 1 else if even f then f else f + 1)"

definition roundToDouble :: "rat \<Rightarrow> rat" where
  "roundToDouble x =
     (if x = 0 then 0
      else
        let e = max (exponentOf \<bar>x\<bar>) (- 1022);
            quantum = 2 powi (e - 52)
        in of_int (roundHalfEven (x / quantum)) * quantum)"

text \<open>
  The double nearest to an integer is an integer. The amounts of the records are
  integers, so a sum or difference of amounts is rounded within the integers; an
  overflow to \<open>Infinity\<close>, which no amount of the records can hold, is not modelled.
\<close>

definition roundToInteger :: "int \<Rightarrow> int" where
  "roundToInteger k = \<lfloor>roundToDouble (of_int k)\<rfloor>"

text \<open>
  The weight of a chain is a sum of powers of two: a finite double that is not negative,
  or \<open>Infinity\<close>. \<open>mathPow2 d\<close> is \<open>Math.pow(2, d)\<close>, the power correctly rounded
  (exact from \<open>2 ^ - 1074\<close> to \<open>2 ^ 1023\<close>, zero below and \<open>Infinity\<close> above);
  \<open>addWeight\<close> is \<open>+\<close> and \<open>lessWeight\<close> is \<open><\<close> on such numbers.
\<close>

datatype weight = Finite rat | PositiveInfinity

definition toWeight :: "rat \<Rightarrow> weight" where
  "toWeight x = (if 2 ^ 1024 \<le> roundToDouble x then PositiveInfinity else Finite (roundToDouble x))"

definition mathPow2 :: "int \<Rightarrow> weight" where
  "mathPow2 d = toWeight (2 powi d)"

fun addWeight :: "weight \<Rightarrow> weight \<Rightarrow> weight" where
  "addWeight (Finite a) (Finite b) = toWeight (a + b)"
| "addWeight (Finite a) PositiveInfinity = PositiveInfinity"
| "addWeight PositiveInfinity b = PositiveInfinity"

fun lessWeight :: "weight \<Rightarrow> weight \<Rightarrow> bool" where
  "lessWeight (Finite a) (Finite b) = (a < b)"
| "lessWeight (Finite a) PositiveInfinity = True"
| "lessWeight PositiveInfinity b = False"

section \<open>Transactions (transaction.ts)\<close>

definition COINBASE_AMOUNT :: int where
  "COINBASE_AMOUNT = 50"

definition txInContent :: "TxIn list \<Rightarrow> string" where
  "txInContent ins = concat (map (\<lambda>txIn. txOutId txIn @ numberToString (txOutIndex txIn)) ins)"

definition txOutContent :: "TxOut list \<Rightarrow> string" where
  "txOutContent outs = concat (map (\<lambda>txOut. address txOut @ numberToString (amount txOut)) outs)"

definition getTransactionId :: "crypto \<Rightarrow> Transaction \<Rightarrow> string" where
  "getTransactionId c transaction =
     sha256 c (txInContent (txIns transaction) @ txOutContent (txOuts transaction))"

text \<open>\<open>unspentTxOuts.find(uTxO => uTxO.txOutId === txOutId && uTxO.txOutIndex === txOutIndex)\<close>\<close>

definition findUnspentTxOut :: "string \<Rightarrow> int \<Rightarrow> UnspentTxOut list \<Rightarrow> UnspentTxOut option" where
  "findUnspentTxOut tid tidx unspentTxOuts =
     find (\<lambda>uTxO. txOutId_u uTxO = tid \<and> txOutIndex_u uTxO = tidx) unspentTxOuts"

definition isHexChar :: "char \<Rightarrow> bool" where
  "isHexChar ch =
     (let k = of_char ch :: nat
      in (48 \<le> k \<and> k \<le> 57) \<or> (65 \<le> k \<and> k \<le> 70) \<or> (97 \<le> k \<and> k \<le> 102))"

definition validateAddress :: "string \<Rightarrow> bool" where
  "validateAddress a =
     (if length a \<noteq> 130 then False
      else if \<not> list_all isHexChar a then False
      else if \<not> prefix ''04'' a then False
      else True)"

definition validateTxInStructure :: "TxIn \<Rightarrow> bool" where
  "validateTxInStructure txIn = True"

definition validateTxOutStructure :: "TxOut \<Rightarrow> bool" where
  "validateTxOutStructure txOut = (if \<not> validateAddress (address txOut) then False else True)"

definition validateTransactionStructure :: "Transaction \<Rightarrow> bool" where
  "validateTransactionStructure transaction =
     (if \<not> list_all validateTxInStructure (txIns transaction) then False
      else if \<not> list_all validateTxOutStructure (txOuts transaction) then False
      else True)"

definition validateTxIn :: "crypto \<Rightarrow> TxIn \<Rightarrow> Transaction \<Rightarrow> UnspentTxOut list \<Rightarrow> bool" where
  "validateTxIn c txIn transaction unspentTxOuts =
     (case findUnspentTxOut (txOutId txIn) (txOutIndex txIn) unspentTxOuts of
        None \<Rightarrow> False
      | Some referencedUTxOut \<Rightarrow>
          verify c (address_u referencedUTxOut) (id_tx transaction) (signature txIn))"

definition getTxInAmount :: "TxIn \<Rightarrow> UnspentTxOut list \<Rightarrow> int" where
  "getTxInAmount txIn unspentTxOuts =
     (case findUnspentTxOut (txOutId txIn) (txOutIndex txIn) unspentTxOuts of
        None \<Rightarrow> 0
      | Some txOut \<Rightarrow> amount_u txOut)"

definition validateTransaction :: "crypto \<Rightarrow> Transaction \<Rightarrow> UnspentTxOut list \<Rightarrow> bool" where
  "validateTransaction c transaction unspentTxOuts =
     (if \<not> validateTransactionStructure transaction then False
      else if getTransactionId c transaction \<noteq> id_tx transaction then False
      else if \<not> list_all (\<lambda>txIn. validateTxIn c txIn transaction unspentTxOuts) (txIns transaction)
        then False
      else if foldl (\<lambda>sum txIn. sum + getTxInAmount txIn unspentTxOuts) 0 (txIns transaction)
              \<noteq> foldl (\<lambda>sum txOut. sum + amount txOut) 0 (txOuts transaction)
        then False
      else True)"

text \<open>
  \<open>validateCoinbaseTx\<close> receives \<open>transactions[0]\<close>, which is \<open>undefined\<close> for an
  empty list: the argument is an option. The two disjunctions of the source are
  evaluated left to right, so \<open>txIns[0]\<close> and \<open>txOuts[0]\<close> are only read from lists
  of length one.
\<close>

definition validateCoinbaseTx :: "crypto \<Rightarrow> Transaction option \<Rightarrow> int \<Rightarrow> bool" where
  "validateCoinbaseTx c t blockIndex =
     (case t of
        None \<Rightarrow> False
      | Some transaction \<Rightarrow>
          if getTransactionId c transaction \<noteq> id_tx transaction then False
          else if length (txIns transaction) \<noteq> 1 then False
          else if txOutIndex (hd (txIns transaction)) \<noteq> blockIndex then False
          else if length (txOuts transaction) \<noteq> 1 then False
          else if amount (hd (txOuts transaction)) \<noteq> COINBASE_AMOUNT then False
          else True)"

text \<open>
  \<open>hasDuplicates\<close>: the callback of \<open>some\<close> adds the key \<open>`${txOutId}${txOutIndex}`\<close>
  of each input to the set \<open>seen\<close> and stops at the first key that is already there.
\<close>

fun hasDuplicatesFrom :: "string list \<Rightarrow> TxIn list \<Rightarrow> bool" where
  "hasDuplicatesFrom seen [] = False"
| "hasDuplicatesFrom seen (txIn # rest) =
     (let k = txOutId txIn @ numberToString (txOutIndex txIn)
      in if k \<in> set seen then True else hasDuplicatesFrom (k # seen) rest)"

definition hasDuplicates :: "TxIn list \<Rightarrow> bool" where
  "hasDuplicates ins = hasDuplicatesFrom [] ins"

definition validateBlockTransactions ::
  "crypto \<Rightarrow> Transaction list \<Rightarrow> UnspentTxOut list \<Rightarrow> int \<Rightarrow> bool" where
  "validateBlockTransactions c txs unspentTxOuts blockIndex =
     (if \<not> validateCoinbaseTx c (case txs of [] \<Rightarrow> None | t # _ \<Rightarrow> Some t) blockIndex then False
      else if hasDuplicates (concat (map txIns txs)) then False
      else list_all (\<lambda>transaction. validateTransaction c transaction unspentTxOuts) (drop 1 txs))"

definition newUnspentTxOuts :: "Transaction \<Rightarrow> UnspentTxOut list" where
  "newUnspentTxOuts transaction =
     map (\<lambda>(idx, txOut).
            \<lparr>txOutId_u = id_tx transaction, txOutIndex_u = int idx,
             address_u = address txOut, amount_u = amount txOut\<rparr>)
         (enumerate 0 (txOuts transaction))"

definition consumes :: "TxIn list \<Rightarrow> UnspentTxOut \<Rightarrow> bool" where
  "consumes consumedTxOuts uTxO =
     list_ex (\<lambda>txOut. txOutId txOut = txOutId_u uTxO \<and> txOutIndex txOut = txOutIndex_u uTxO)
       consumedTxOuts"

definition updateUnspentTxOuts :: "Transaction list \<Rightarrow> UnspentTxOut list \<Rightarrow> UnspentTxOut list" where
  "updateUnspentTxOuts txs unspentTxOuts =
     filter (\<lambda>uTxO. \<not> consumes (concat (map txIns txs)) uTxO) unspentTxOuts
       @ concat (map newUnspentTxOuts txs)"

definition processTransactions ::
  "crypto \<Rightarrow> Transaction list \<Rightarrow> UnspentTxOut list \<Rightarrow> int \<Rightarrow> error + UnspentTxOut list" where
  "processTransactions c txs unspentTxOuts blockIndex =
     (if \<not> validateBlockTransactions c txs unspentTxOuts blockIndex
        then Inl InvalidBlockTransactions
      else Inr (updateUnspentTxOuts txs unspentTxOuts))"

definition getCoinbaseTransaction :: "crypto \<Rightarrow> string \<Rightarrow> int \<Rightarrow> Transaction" where
  "getCoinbaseTransaction c addr blockIndex =
     (let ins = [\<lparr>txOutId = [], txOutIndex = blockIndex, signature = []\<rparr>];
          outs = [\<lparr>address = addr, amount = COINBASE_AMOUNT\<rparr>]
      in \<lparr>id_tx = getTransactionId c \<lparr>id_tx = [], txIns = ins, txOuts = outs\<rparr>,
          txIns = ins, txOuts = outs\<rparr>)"


section \<open>Transaction pool (transactionPool.ts)\<close>

text \<open>
  The pool is a module variable; the model passes it in and returns it. A \<open>throw\<close>
  is the left summand of the result, and the pool returned with it is the pool as the
  exception leaves it.
\<close>

definition hasTxIn :: "TxIn \<Rightarrow> UnspentTxOut list \<Rightarrow> bool" where
  "hasTxIn txIn unspentTxOuts =
     list_ex (\<lambda>uTxO. txOutId_u uTxO = txOutId txIn \<and> txOutIndex_u uTxO = txOutIndex txIn)
       unspentTxOuts"

definition updateTransactionPool :: "UnspentTxOut list \<Rightarrow> Transaction list \<Rightarrow> Transaction list" where
  "updateTransactionPool unspentTxOuts transactionPool =
     (let invalidTxs =
            filter (\<lambda>tx. list_ex (\<lambda>txIn. \<not> hasTxIn txIn unspentTxOuts) (txIns tx)) transactionPool
      in if length invalidTxs > 0
           then filter (\<lambda>tx. tx \<notin> set invalidTxs) transactionPool
         else transactionPool)"

definition getTxPoolIns :: "Transaction list \<Rightarrow> TxIn list" where
  "getTxPoolIns aTransactionPool = concat (map txIns aTransactionPool)"

definition isValidTxForPool :: "Transaction \<Rightarrow> Transaction list \<Rightarrow> bool" where
  "isValidTxForPool tx aTransactionPool =
     (let txPoolIns = getTxPoolIns aTransactionPool
      in list_all
           (\<lambda>txIn. \<not> list_ex
                       (\<lambda>txPoolIn. txOutIndex txIn = txOutIndex txPoolIn
                                    \<and> txOutId txIn = txOutId txPoolIn)
                       txPoolIns)
           (txIns tx))"

definition addToTransactionPool ::
  "crypto \<Rightarrow> Transaction \<Rightarrow> UnspentTxOut list \<Rightarrow> Transaction list
     \<Rightarrow> (error + unit) \<times> Transaction list" where
  "addToTransactionPool c transaction unspentTxOuts transactionPool =
     (if \<not> validateTransaction c transaction unspentTxOuts then (Inl InvalidPoolTx, transactionPool)
      else if \<not> isValidTxForPool transaction transactionPool then (Inl InvalidPoolTx, transactionPool)
      else (Inr (), transactionPool @ [transaction]))"

section \<open>Wallet (wallet.ts)\<close>

text \<open>
  The loop of \<open>findTxOutsForAmount\<close>: each output is pushed and added before the
  running total is compared with the amount; falling out of the loop throws. The
  running total and the amount left over are doubles: \<open>currentAmount += amount\<close> and
  \<open>currentAmount - amount\<close> round.
\<close>

fun findTxOutsLoop ::
  "int \<Rightarrow> UnspentTxOut list \<Rightarrow> int \<Rightarrow> UnspentTxOut list \<Rightarrow> error + (UnspentTxOut list \<times> int)" where
  "findTxOutsLoop amt [] currentAmount included = Inl NotEnoughCoins"
| "findTxOutsLoop amt (myUnspentTxOut # rest) currentAmount included =
     (let included' = included @ [myUnspentTxOut];
          currentAmount' = roundToInteger (currentAmount + amount_u myUnspentTxOut)
      in if currentAmount' \<ge> amt then Inr (included', roundToInteger (currentAmount' - amt))
         else findTxOutsLoop amt rest currentAmount' included')"

definition findTxOutsForAmount ::
  "int \<Rightarrow> UnspentTxOut list \<Rightarrow> error + (UnspentTxOut list \<times> int)" where
  "findTxOutsForAmount amt myUnspentTxOuts = findTxOutsLoop amt myUnspentTxOuts 0 []"






section \<open>Chain (blockchain.ts)\<close>

text \<open>
  \<open>`${transactions}`\<close> converts the array with \<open>Array.prototype.toString\<close>: the
  elements, each an object and so \<open>[object Object]\<close>, joined by commas.
\<close>

fun joinComma :: "string list \<Rightarrow> string" where
  "joinComma [] = []"
| "joinComma [s] = s"
| "joinComma (s # t # rest) = s @ '','' @ joinComma (t # rest)"

definition transactionsToString :: "Transaction list \<Rightarrow> string" where
  "transactionsToString txs = joinComma (map (\<lambda>t. ''[object Object]'') txs)"

definition generateHash ::
  "crypto \<Rightarrow> int \<Rightarrow> string \<Rightarrow> int \<Rightarrow> Transaction list \<Rightarrow> int \<Rightarrow> int \<Rightarrow> string" where
  "generateHash c idx prevHash ts txs diff prf =
     sha256 c (numberToString idx @ prevHash @ numberToString ts @ transactionsToString txs
               @ numberToString diff @ numberToString prf)"

definition generateHashForBlock :: "crypto \<Rightarrow> Block \<Rightarrow> string" where
  "generateHashForBlock c block =
     generateHash c (index block) (previousHash block) (timestamp block) (transactions block)
       (difficulty block) (proof_b block)"

definition validateBlockStructure :: "Block \<Rightarrow> bool" where
  "validateBlockStructure block = True"

text \<open>\<open>Date.now()\<close> is the parameter \<open>now\<close>, in milliseconds.\<close>

definition validateTimestamp :: "int \<Rightarrow> Block \<Rightarrow> Block \<Rightarrow> bool" where
  "validateTimestamp now newBlock previousBlock =
     (timestamp previousBlock - 60 < timestamp newBlock \<and> timestamp newBlock - 60 < now)"

definition validateNewBlock :: "crypto \<Rightarrow> int \<Rightarrow> Block \<Rightarrow> Block \<Rightarrow> bool" where
  "validateNewBlock c now newBlock previousBlock =
     (if \<not> validateBlockStructure newBlock then False
      else if index newBlock \<noteq> index previousBlock + 1 then False
      else if previousHash newBlock \<noteq> hash previousBlock then False
      else if \<not> validateTimestamp now newBlock previousBlock then False
      else if generateHashForBlock c newBlock \<noteq> hash newBlock then False
      else True)"

text \<open>
  Modelled from the spec: \<open>hexToBinary\<close> of \<open>./utils\<close>, which is not among the source
  files. The spec gives it as \<open>hexToBinary(hex) \<rightarrow> binary-digits string\<close>, each
  hexadecimal digit becoming its four binary digits; \<open>checkHashDifficulty\<close> expects
  \<open>null\<close> when there is no binary string, here for a character that is no
  hexadecimal digit.
\<close>

definition hexDigitValue :: "char \<Rightarrow> nat option" where
  "hexDigitValue ch =
     (let k = of_char ch :: nat
      in if 48 \<le> k \<and> k \<le> 57 then Some (k - 48)
         else if 97 \<le> k \<and> k \<le> 102 then Some (k - 87)
         else if 65 \<le> k \<and> k \<le> 70 then Some (k - 55)
         else None)"

definition bit4 :: "nat \<Rightarrow> string" where
  "bit4 v = map (\<lambda>w. if (v div w) mod 2 = 1 then CHR ''1'' else CHR ''0'') [8, 4, 2, 1]"

fun hexToBinary :: "string \<Rightarrow> string option" where
  "hexToBinary [] = Some []"
| "hexToBinary (ch # rest) =
     (case hexDigitValue ch of
        None \<Rightarrow> None
      | Some v \<Rightarrow> (case hexToBinary rest of None \<Rightarrow> None | Some bs \<Rightarrow> Some (bit4 v @ bs)))"

text \<open>
  \<open>'0'.repeat(difficulty)\<close> throws a RangeError for a negative count, before the
  binary string is looked at; an empty binary string is falsy like \<open>null\<close>.
\<close>

definition checkHashDifficulty :: "string \<Rightarrow> int \<Rightarrow> error + bool" where
  "checkHashDifficulty h diff =
     (if diff < 0 then Inl RangeError
      else
        case hexToBinary h of
          None \<Rightarrow> Inr False
        | Some binary \<Rightarrow>
            if binary = [] then Inr False
            else Inr (prefix (replicate (nat diff) CHR ''0'') binary))"

record node =
  blockchain :: "Block list"
  unspentTxOuts :: "UnspentTxOut list"
  transactionPool :: "Transaction list"

text \<open>
  \<open>addBlock\<close>. \<open>getLastBlock()\<close> is \<open>undefined\<close> on an empty chain and reading its
  \<open>index\<close> throws. \<open>processTransactions\<close> throws rather than returning \<open>null\<close>, so
  the exception leaves \<open>addBlock\<close> before anything is assigned.
\<close>

definition addBlock :: "crypto \<Rightarrow> int \<Rightarrow> node \<Rightarrow> Block \<Rightarrow> (error + bool) \<times> node" where
  "addBlock c now st newBlock =
     (if blockchain st = [] then (Inl TypeError, st)
      else if \<not> validateNewBlock c now newBlock (last (blockchain st)) then (Inr False, st)
      else
        case processTransactions c (transactions newBlock) (unspentTxOuts st) (index newBlock) of
          Inl e \<Rightarrow> (Inl e, st)
        | Inr referencedUTxO \<Rightarrow>
            (Inr True,
             st\<lparr>blockchain := blockchain st @ [newBlock], unspentTxOuts := referencedUTxO\<rparr>))"

text \<open>
  \<open>validateChain\<close>. \<open>JSON.stringify\<close> of the two first blocks is compared; on records
  this is equality, and \<open>JSON.stringify(undefined)\<close> is \<open>undefined\<close> on both sides
  when both chains are empty. The loop validates block \<open>i > 0\<close> against block
  \<open>i - 1\<close> and then processes the block's transactions, block 0 included.
\<close>

definition isValidGenesis :: "Block list \<Rightarrow> Block list \<Rightarrow> bool" where
  "isValidGenesis block localChain =
     (case block of
        [] \<Rightarrow> (case localChain of [] \<Rightarrow> True | g # _ \<Rightarrow> False)
      | b # _ \<Rightarrow> (case localChain of [] \<Rightarrow> False | g # _ \<Rightarrow> b = g))"

fun validateChainLoop ::
  "crypto \<Rightarrow> int \<Rightarrow> Block option \<Rightarrow> Block list \<Rightarrow> UnspentTxOut list
     \<Rightarrow> error + UnspentTxOut list option" where
  "validateChainLoop c now prev [] uTxOs = Inr (Some uTxOs)"
| "validateChainLoop c now prev (currentBlock # rest) uTxOs =
     (if (case prev of None \<Rightarrow> False | Some p \<Rightarrow> \<not> validateNewBlock c now currentBlock p)
        then Inr None
      else
        case processTransactions c (transactions currentBlock) uTxOs (index currentBlock) of
          Inl e \<Rightarrow> Inl e
        | Inr uTxOs' \<Rightarrow> validateChainLoop c now (Some currentBlock) rest uTxOs')"

definition validateChain ::
  "crypto \<Rightarrow> int \<Rightarrow> Block list \<Rightarrow> Block list \<Rightarrow> error + UnspentTxOut list option" where
  "validateChain c now localChain block =
     (if \<not> isValidGenesis block localChain then Inr None
      else validateChainLoop c now None block [])"

text \<open>
  \<open>getAccumulatedDifficulty\<close> adds the powers from the left, starting from 0, and
  every addition rounds.
\<close>

definition getAccumulatedDifficulty :: "Block list \<Rightarrow> weight" where
  "getAccumulatedDifficulty chain =
     foldl (\<lambda>a b. addWeight a b) (Finite 0)
       (map (\<lambda>diffculty. mathPow2 diffculty) (map difficulty chain))"

text \<open>
  \<open>replaceChain\<close>. The broadcast to the peers that ends the function does not change
  the node and is left out.
\<close>

definition replaceChain :: "crypto \<Rightarrow> int \<Rightarrow> node \<Rightarrow> Block list \<Rightarrow> (error + bool) \<times> node" where
  "replaceChain c now st newChain =
     (case validateChain c now (blockchain st) newChain of
        Inl e \<Rightarrow> (Inl e, st)
      | Inr None \<Rightarrow> (Inr False, st)
      | Inr (Some uTxOs) \<Rightarrow>
          if lessWeight (getAccumulatedDifficulty newChain)
               (getAccumulatedDifficulty (blockchain st))
            then (Inr False, st)
          else if length newChain \<le> length (blockchain st) then (Inr False, st)
          else
            (Inr True,
             \<lparr>blockchain = newChain, unspentTxOuts = uTxOs,
              transactionPool = updateTransactionPool uTxOs (transactionPool st)\<rparr>))"

definition BLOCK_GENERATION_INTERVAL :: int where
  "BLOCK_GENERATION_INTERVAL = 10"

definition DIFFICULTY_ADJUSTMENT_INTERVAL :: int where
  "DIFFICULTY_ADJUSTMENT_INTERVAL = 10"


text \<open>
  \<open>timeTaken\<close> is \<open>lastBlock.timestamp / 1000 - lastAdjustmentBlock.timestamp / 1000\<close>:
  two quotients, each rounded, and their difference, rounded again. A timestamp is a
  finite double, so neither the quotients nor the difference overflow.
\<close>

definition timeTaken :: "Block \<Rightarrow> Block \<Rightarrow> rat" where
  "timeTaken lastAdjustmentBlock lastBlock =
     roundToDouble (roundToDouble (of_int (timestamp lastBlock) / 1000)
                      - roundToDouble (of_int (timestamp lastAdjustmentBlock) / 1000))"

definition retarget :: "Block \<Rightarrow> Block \<Rightarrow> int" where
  "retarget lastAdjustmentBlock lastBlock =
     (let timeExpected = of_int (BLOCK_GENERATION_INTERVAL * DIFFICULTY_ADJUSTMENT_INTERVAL) :: rat
      in if timeTaken lastAdjustmentBlock lastBlock < roundToDouble (timeExpected / 2)
           then difficulty lastAdjustmentBlock + 1
         else if timeTaken lastAdjustmentBlock lastBlock > roundToDouble (timeExpected * 2)
           then difficulty lastAdjustmentBlock - 1
         else difficulty lastAdjustmentBlock)"



section \<open>The properties in the words of the specification\<close>

text \<open>
  The definitions of this section are not code of the node: they say what the
  specification says, to be compared with the code above.

  A chain is linked when every block after the first passes \<open>validateNewBlock\<close>
  against its predecessor; \<open>linkedFrom\<close> is the same by recursion, with the
  predecessor carried along.
\<close>

definition linkedChain :: "crypto \<Rightarrow> int \<Rightarrow> Block list \<Rightarrow> bool" where
  "linkedChain c now chain =
     list_all (\<lambda>(previousBlock, newBlock). validateNewBlock c now newBlock previousBlock)
       (zip chain (drop 1 chain))"

fun linkedFrom :: "crypto \<Rightarrow> int \<Rightarrow> Block option \<Rightarrow> Block list \<Rightarrow> bool" where
  "linkedFrom c now prev [] = True"
| "linkedFrom c now prev (b # rest) =
     ((case prev of None \<Rightarrow> True | Some p \<Rightarrow> validateNewBlock c now b p)
      \<and> linkedFrom c now (Some b) rest)"

text \<open>The transactions of a chain replayed block by block from a given set.\<close>

fun replayTransactions ::
  "crypto \<Rightarrow> Block list \<Rightarrow> UnspentTxOut list \<Rightarrow> error + UnspentTxOut list" where
  "replayTransactions c [] uTxOs = Inr uTxOs"
| "replayTransactions c (block # rest) uTxOs =
     (case processTransactions c (transactions block) uTxOs (index block) of
        Inl e \<Rightarrow> Inl e
      | Inr uTxOs' \<Rightarrow> replayTransactions c rest uTxOs')"

text \<open>
  The weight of a chain: the sum of \<open>2 ^ difficulty\<close> over its blocks. The sum is
  free of rounding when no difficulty is negative and the weight is at most \<open>2 ^ 53\<close>.
\<close>

definition chainWeight :: "Block list \<Rightarrow> rat" where
  "chainWeight chain = (\<Sum>block\<leftarrow>chain. 2 powi difficulty block)"

definition exactWeight :: "Block list \<Rightarrow> bool" where
  "exactWeight chain \<longleftrightarrow>
     list_all (\<lambda>block. 0 \<le> difficulty block) chain \<and> chainWeight chain \<le> 2 ^ 53"



text \<open>
  The identity key of an unspent output and the key an input refers to: the pair
  \<open>(txOutId, txOutIndex)\<close>.
\<close>

definition outputKey :: "UnspentTxOut \<Rightarrow> string \<times> int" where
  "outputKey uTxO = (txOutId_u uTxO, txOutIndex_u uTxO)"

definition inputKey :: "TxIn \<Rightarrow> string \<times> int" where
  "inputKey txIn = (txOutId txIn, txOutIndex txIn)"

definition spentBy :: "TxIn list \<Rightarrow> UnspentTxOut \<Rightarrow> bool" where
  "spentBy ins uTxO = (outputKey uTxO \<in> inputKey ` set ins)"

text \<open>
  The update of the set of unspent outputs as the specification words it: for each
  transaction in block order, remove every output that one of its inputs consumes,
  then insert one new output per \<open>TxOut\<close>, with the transaction's id and the
  position of the \<open>TxOut\<close>.
\<close>

definition createdOutputs :: "Transaction \<Rightarrow> UnspentTxOut list" where
  "createdOutputs tx =
     map (\<lambda>i. \<lparr>txOutId_u = id_tx tx, txOutIndex_u = int i,
               address_u = address (txOuts tx ! i), amount_u = amount (txOuts tx ! i)\<rparr>)
       [0..<length (txOuts tx)]"

definition applyTransaction :: "UnspentTxOut list \<Rightarrow> Transaction \<Rightarrow> UnspentTxOut list" where
  "applyTransaction uTxOs tx =
     filter (\<lambda>uTxO. \<not> spentBy (txIns tx) uTxO) uTxOs @ createdOutputs tx"

definition sequentialUpdate :: "Transaction list \<Rightarrow> UnspentTxOut list \<Rightarrow> UnspentTxOut list" where
  "sequentialUpdate txs uTxOs = foldl applyTransaction uTxOs txs"

text \<open>
  No input of a transaction refers to an output that an earlier transaction of the same
  list creates.
\<close>

fun noSpendWithinBlock :: "Transaction list \<Rightarrow> bool" where
  "noSpendWithinBlock [] = True"
| "noSpendWithinBlock (tx # rest) =
     (list_all (\<lambda>uTxO. \<not> spentBy (concat (map txIns rest)) uTxO) (createdOutputs tx)
      \<and> noSpendWithinBlock rest)"



definition totalAmount :: "UnspentTxOut list \<Rightarrow> int" where
  "totalAmount us = sum_list (map amount_u us)"


section \<open>Example data\<close>

text \<open>
  The genesis block of the source, two key pairs on secp256k1 and a finite table of the
  primitives at the arguments the examples below use: the SHA-256 digests of the hashed
  strings, the public keys of the two private keys, and ECDSA signatures by \<open>alice\<close>
  of two transaction ids. The digests of the first two entries are the id of the
  genesis transaction and the hash of the genesis block that the source hard-codes.
\<close>

definition genesisAddress :: string where
  "genesisAddress =
     ''04bfcab8722991ae774db48f934ca79cfb7dd991229153b9f732ba5334aafcd8''
     @ ''e7266e47076996b55a14bf9913ee3145ce0cfc1372ada8ada74bd28745031353''
     @ ''4a''"

definition alicePrivateKey :: string where
  "alicePrivateKey =
     ''1e99423a4ed27608a15a2616a2b0e9e52ced330ac530edcc32c8ffc6a526aedd''"

definition alice :: string where
  "alice =
     ''04f028892bad7ed57d2fb57bf33081d5cfcf6f9ed3d3d7f159c2e2fff579dc34''
     @ ''1a07cf33da18bd734c600b96a72bbc4749d5141c90ec8ac328ae52ddfe2e505b''
     @ ''db''"

definition bobPrivateKey :: string where
  "bobPrivateKey =
     ''3aba4162c7251c891207b747840551a71939b0de081f85c4e44cf7c13e41daa6''"

definition bob :: string where
  "bob =
     ''045c0de3b9c8ab18dd04e3511243ec2952002dbfadc864b9628910169d9b9b00''
     @ ''ec243bcefdd4347074d44bd7356d6a53c495737dd96295e2a9374bf5f02ebfc1''
     @ ''76''"

definition sha256Table :: "(string \<times> string) list" where
  "sha256Table =
     [(''004bfcab8722991ae774db48f934ca79cfb7dd991229153b9f732ba5334aafcd''
       @ ''8e7266e47076996b55a14bf9913ee3145ce0cfc1372ada8ada74bd2874503135''
       @ ''34a50'',
       ''e655f6a5f26dc9b4cac6e46f52336428287759cf81ef5ff10854f69d68f43fa3''),
      (''01734667274522[object Object]00'',
       ''45dcbece109d098f2764e371d20e29c5ef3dcc10d985c6bc8d563d1fbdc82d9e''),
      (''104f028892bad7ed57d2fb57bf33081d5cfcf6f9ed3d3d7f159c2e2fff579dc3''
       @ ''41a07cf33da18bd734c600b96a72bbc4749d5141c90ec8ac328ae52ddfe2e505''
       @ ''bdb50'',
       ''35194d135dca3aaef1b560083fce7c6332a555de4f2aa56c73de6799972d961c''),
      (''204f028892bad7ed57d2fb57bf33081d5cfcf6f9ed3d3d7f159c2e2fff579dc3''
       @ ''41a07cf33da18bd734c600b96a72bbc4749d5141c90ec8ac328ae52ddfe2e505''
       @ ''bdb50'',
       ''c7da034c2294626be37f064770b8ece91a5f45daff17d6ddea464a68e8b1ddf5''),
      (''145dcbece109d098f2764e371d20e29c5ef3dcc10d985c6bc8d563d1fbdc82d9''
       @ ''e1734667280000[object Object]200'',
       ''1f7b5a014b54e19196fedd2fb1df63da06d67b677800f0b68d3774d8fa08d9c0''),
      (''145dcbece109d098f2764e371d20e29c5ef3dcc10d985c6bc8d563d1fbdc82d9''
       @ ''e1734667280000[object Object]10'',
       ''36f51eead58c06067f24748a721585d186ae142adf7d6c7bd77fd352090eb4eb''),
      (''145dcbece109d098f2764e371d20e29c5ef3dcc10d985c6bc8d563d1fbdc82d9''
       @ ''e1734667280000[object Object]00'',
       ''72185bd035738684bd0817ff3d2dab72cfbaf227f99228a1ead3fabbfa89d023''),
      (''272185bd035738684bd0817ff3d2dab72cfbaf227f99228a1ead3fabbfa89d02''
       @ ''31734667290000[object Object]00'',
       ''549b858eb6a2826effdd97854a1d9518ff4b7728674c011075adee4f1e152a29''),
      (''35194d135dca3aaef1b560083fce7c6332a555de4f2aa56c73de6799972d961c''
       @ ''0045c0de3b9c8ab18dd04e3511243ec2952002dbfadc864b9628910169d9b9b0''
       @ ''0ec243bcefdd4347074d44bd7356d6a53c495737dd96295e2a9374bf5f02ebfc''
       @ ''1763004f028892bad7ed57d2fb57bf33081d5cfcf6f9ed3d3d7f159c2e2fff57''
       @ ''9dc341a07cf33da18bd734c600b96a72bbc4749d5141c90ec8ac328ae52ddfe2''
       @ ''e505bdb20'',
       ''feee18a1dedadefaff950bff03818bd05fcfe2472c5d127e714cabf897c55451''),
      (''145dcbece109d098f2764e371d20e29c5ef3dcc10d985c6bc8d563d1fbdc82d9''
       @ ''e1734667214523[object Object]00'',
       ''5a6cf1732726f6ec13d8228fbe1e6ea6f10ef03f0cfad64c4bb0f355eb48704e''),
      (''1204f028892bad7ed57d2fb57bf33081d5cfcf6f9ed3d3d7f159c2e2fff579dc''
       @ ''341a07cf33da18bd734c600b96a72bbc4749d5141c90ec8ac328ae52ddfe2e50''
       @ ''5bdb50'',
       ''3431f9ec4bb1dcb28766702b85075d89194347bf48926c6ef7c62248038cba44''),
      (''3431f9ec4bb1dcb28766702b85075d89194347bf48926c6ef7c62248038cba44''
       @ ''0045c0de3b9c8ab18dd04e3511243ec2952002dbfadc864b9628910169d9b9b0''
       @ ''0ec243bcefdd4347074d44bd7356d6a53c495737dd96295e2a9374bf5f02ebfc''
       @ ''1763004f028892bad7ed57d2fb57bf33081d5cfcf6f9ed3d3d7f159c2e2fff57''
       @ ''9dc341a07cf33da18bd734c600b96a72bbc4749d5141c90ec8ac328ae52ddfe2''
       @ ''e505bdb20'',
       ''43db789c6021a2e845e269bd67299ffff95bbcfb74842de0b94c80db9d3fb35a''),
      (''abc1anyone50'',
       ''5ca2829472c8f8ecb048298379b900884f3c57c44ab272d566d853db019b44bf''),
      (''a12a12045c0de3b9c8ab18dd04e3511243ec2952002dbfadc864b9628910169d''
       @ ''9b9b00ec243bcefdd4347074d44bd7356d6a53c495737dd96295e2a9374bf5f0''
       @ ''2ebfc17610'',
       ''e25aba1daadd47fe3190add3e0dfbc30b95f26ea50549b872a40cda719f2a8dd'')]"

definition signatureTable :: "((string \<times> string) \<times> string) list" where
  "signatureTable =
     [((alicePrivateKey, ''feee18a1dedadefaff950bff03818bd05fcfe2472c5d127e714cabf897c55451''),
       ''30440220367163a4f347c9b90b3abe558162f7a8920f9b0b0585260d255d23f3''
       @ ''a2b65d36022012257a8b79aafd3233f3b524f8d3e2076cb0a66fc74adb9a9df9''
       @ ''952cc2c6a29c''),
      ((alicePrivateKey, ''e25aba1daadd47fe3190add3e0dfbc30b95f26ea50549b872a40cda719f2a8dd''),
       ''304502210080bec8c75ff7eaf9b58287cf0b619eb5d13573420dfa75b7dd4ce2''
       @ ''809c4584e702200764d5034e11250d0096c1e425b4cfef11079e5d10ca6bafd1''
       @ ''c0c9324cc57a2c'')]"

definition keyTable :: "(string \<times> string) list" where
  "keyTable = [(alicePrivateKey, alice), (bobPrivateKey, bob)]"

definition tableCrypto :: crypto where
  "tableCrypto =
     \<lparr>sha256 = (\<lambda>s. case map_of sha256Table s of None \<Rightarrow> [] | Some dg \<Rightarrow> dg),
      verify = (\<lambda>a m s. list_ex (\<lambda>((k, m'), s'). map_of keyTable k = Some a \<and> m' = m \<and> s' = s)
                           signatureTable),
      sign = (\<lambda>k m. case map_of signatureTable (k, m) of None \<Rightarrow> [] | Some s \<Rightarrow> s),
      publicKey = (\<lambda>k. case map_of keyTable k of None \<Rightarrow> [] | Some a \<Rightarrow> a)\<rparr>"

definition genesisTransaction :: Transaction where
  "genesisTransaction =
     \<lparr>id_tx = ''e655f6a5f26dc9b4cac6e46f52336428287759cf81ef5ff10854f69d68f43fa3'',
      txIns = [\<lparr>txOutId = [], txOutIndex = 0, signature = []\<rparr>],
      txOuts = [\<lparr>address = genesisAddress, amount = 50\<rparr>]\<rparr>"

definition genesisBlock :: Block where
  "genesisBlock =
     \<lparr>index = 0, timestamp = 1734667274522, transactions = [genesisTransaction],
      hash = ''45dcbece109d098f2764e371d20e29c5ef3dcc10d985c6bc8d563d1fbdc82d9e'',
      previousHash = [],
      difficulty = 0, proof_b = 0\<rparr>"

definition genesisUnspentTxOuts :: "UnspentTxOut list" where
  "genesisUnspentTxOuts =
     [\<lparr>txOutId_u = ''e655f6a5f26dc9b4cac6e46f52336428287759cf81ef5ff10854f69d68f43fa3'', txOutIndex_u = 0, address_u = genesisAddress, amount_u = 50\<rparr>]"

definition initialNode :: node where
  "initialNode =
     \<lparr>blockchain = [genesisBlock], unspentTxOuts = genesisUnspentTxOuts, transactionPool = []\<rparr>"

text \<open>
  The coinbase transactions that \<open>getCoinbaseTransaction\<close> builds for
  \<open>alice\<close> at the block indices 1 and 2.
\<close>

definition coinbase1 :: Transaction where
  "coinbase1 =
     \<lparr>id_tx = ''35194d135dca3aaef1b560083fce7c6332a555de4f2aa56c73de6799972d961c'',
      txIns = [\<lparr>txOutId = [], txOutIndex = 1, signature = []\<rparr>],
      txOuts = [\<lparr>address = alice, amount = 50\<rparr>]\<rparr>"

definition coinbase2 :: Transaction where
  "coinbase2 =
     \<lparr>id_tx = ''c7da034c2294626be37f064770b8ece91a5f45daff17d6ddea464a68e8b1ddf5'',
      txIns = [\<lparr>txOutId = [], txOutIndex = 2, signature = []\<rparr>],
      txOuts = [\<lparr>address = alice, amount = 50\<rparr>]\<rparr>"

text \<open>
  A block on top of the genesis block that states difficulty 20 and proof 0; its hash,
  the digest of its fields, begins with the hexadecimal digit 1, that is with three zero
  bits.
\<close>

definition weakBlock :: Block where
  "weakBlock =
     \<lparr>index = 1, timestamp = 1734667280000, transactions = [coinbase1],
      hash = ''1f7b5a014b54e19196fedd2fb1df63da06d67b677800f0b68d3774d8fa08d9c0'',
      previousHash = ''45dcbece109d098f2764e371d20e29c5ef3dcc10d985c6bc8d563d1fbdc82d9e'',
      difficulty = 20, proof_b = 0\<rparr>"

text \<open>
  A local chain of two blocks, the second of difficulty 1, and a candidate chain of
  three blocks of difficulty 0: both weigh 3.
\<close>

definition localBlock1 :: Block where
  "localBlock1 =
     \<lparr>index = 1, timestamp = 1734667280000, transactions = [coinbase1],
      hash = ''36f51eead58c06067f24748a721585d186ae142adf7d6c7bd77fd352090eb4eb'',
      previousHash = ''45dcbece109d098f2764e371d20e29c5ef3dcc10d985c6bc8d563d1fbdc82d9e'',
      difficulty = 1, proof_b = 0\<rparr>"

definition localNode :: node where
  "localNode =
     \<lparr>blockchain = [genesisBlock, localBlock1],
      unspentTxOuts = genesisUnspentTxOuts @ newUnspentTxOuts coinbase1,
      transactionPool = []\<rparr>"

definition forkBlock1 :: Block where
  "forkBlock1 =
     \<lparr>index = 1, timestamp = 1734667280000, transactions = [coinbase1],
      hash = ''72185bd035738684bd0817ff3d2dab72cfbaf227f99228a1ead3fabbfa89d023'',
      previousHash = ''45dcbece109d098f2764e371d20e29c5ef3dcc10d985c6bc8d563d1fbdc82d9e'',
      difficulty = 0, proof_b = 0\<rparr>"

definition forkBlock2 :: Block where
  "forkBlock2 =
     \<lparr>index = 2, timestamp = 1734667290000, transactions = [coinbase2],
      hash = ''549b858eb6a2826effdd97854a1d9518ff4b7728674c011075adee4f1e152a29'',
      previousHash = ''72185bd035738684bd0817ff3d2dab72cfbaf227f99228a1ead3fabbfa89d023'',
      difficulty = 0, proof_b = 0\<rparr>"

definition forkChain :: "Block list" where
  "forkChain = [genesisBlock, forkBlock1, forkBlock2]"

text \<open>
  A coinbase transaction for block 5 with the id of \<open>coinbase1\<close>: the sixteenth
  character of the address of \<open>alice\<close> is \<open>5\<close>, so the input with
  \<open>txOutId\<close> the character \<open>1\<close> followed by the first fifteen characters of the
  address and \<open>txOutIndex\<close> 5, and the output to the rest of the address, hash the
  same string as the input \<open>('', 1)\<close> and the output to the whole address.
\<close>

definition craftedCoinbase5 :: Transaction where
  "craftedCoinbase5 =
     \<lparr>id_tx = id_tx coinbase1,
      txIns = [\<lparr>txOutId = CHR ''1'' # take 15 alice, txOutIndex = 5, signature = []\<rparr>],
      txOuts = [\<lparr>address = drop 16 alice, amount = 50\<rparr>]\<rparr>"

text \<open>
  A payment of 30 by \<open>alice\<close> to \<open>bob\<close> out of the coinbase
  output of block 1, with 20 of change.
\<close>

definition paymentTx :: Transaction where
  "paymentTx =
     \<lparr>id_tx = ''feee18a1dedadefaff950bff03818bd05fcfe2472c5d127e714cabf897c55451'',
      txIns = [\<lparr>txOutId = ''35194d135dca3aaef1b560083fce7c6332a555de4f2aa56c73de6799972d961c'', txOutIndex = 0, signature = ''30440220367163a4f347c9b90b3abe558162f7a8920f9b0b0585260d255d23f3''
                          @ ''a2b65d36022012257a8b79aafd3233f3b524f8d3e2076cb0a66fc74adb9a9df9''
                          @ ''952cc2c6a29c''\<rparr>],
      txOuts = [\<lparr>address = bob, amount = 30\<rparr>, \<lparr>address = alice, amount = 20\<rparr>]\<rparr>"

definition aliceUnspentTxOuts :: "UnspentTxOut list" where
  "aliceUnspentTxOuts =
     [\<lparr>txOutId_u = ''35194d135dca3aaef1b560083fce7c6332a555de4f2aa56c73de6799972d961c'', txOutIndex_u = 0, address_u = alice, amount_u = 50\<rparr>]"

text \<open>
  A transaction with one input and one output of 50 whose input has a non-empty
  \<open>txOutId\<close> and \<open>signature\<close> and whose output address is no
  valid address.
\<close>

definition oddCoinbase :: Transaction where
  "oddCoinbase =
     \<lparr>id_tx = ''5ca2829472c8f8ecb048298379b900884f3c57c44ab272d566d853db019b44bf'',
      txIns = [\<lparr>txOutId = ''abc'', txOutIndex = 1, signature = ''zz''\<rparr>],
      txOuts = [\<lparr>address = ''anyone'', amount = 50\<rparr>]\<rparr>"

text \<open>
  A transaction whose two inputs reference the distinct outputs \<open>(a1, 2)\<close>
  and \<open>(a, 12)\<close>, both unspent and owned by \<open>alice\<close>.
\<close>

definition collidingTx :: Transaction where
  "collidingTx =
     \<lparr>id_tx = ''e25aba1daadd47fe3190add3e0dfbc30b95f26ea50549b872a40cda719f2a8dd'',
      txIns = [\<lparr>txOutId = ''a1'', txOutIndex = 2, signature = ''304502210080bec8c75ff7eaf9b58287cf0b619eb5d13573420dfa75b7dd4ce2''
                          @ ''809c4584e702200764d5034e11250d0096c1e425b4cfef11079e5d10ca6bafd1''
                          @ ''c0c9324cc57a2c''\<rparr>,
               \<lparr>txOutId = ''a'', txOutIndex = 12, signature = ''304502210080bec8c75ff7eaf9b58287cf0b619eb5d13573420dfa75b7dd4ce2''
                          @ ''809c4584e702200764d5034e11250d0096c1e425b4cfef11079e5d10ca6bafd1''
                          @ ''c0c9324cc57a2c''\<rparr>],
      txOuts = [\<lparr>address = bob, amount = 10\<rparr>]\<rparr>"

definition collidingUnspentTxOuts :: "UnspentTxOut list" where
  "collidingUnspentTxOuts =
     [\<lparr>txOutId_u = ''a1'', txOutIndex_u = 2, address_u = alice, amount_u = 4\<rparr>,
      \<lparr>txOutId_u = ''a'', txOutIndex_u = 12, address_u = alice, amount_u = 6\<rparr>]"




text \<open>A block stamped 59,999 ms before the genesis block.\<close>

definition earlyBlock :: Block where
  "earlyBlock =
     \<lparr>index = 1, timestamp = 1734667214523, transactions = [coinbase1],
      hash = ''5a6cf1732726f6ec13d8228fbe1e6ea6f10ef03f0cfad64c4bb0f355eb48704e'',
      previousHash = ''45dcbece109d098f2764e371d20e29c5ef3dcc10d985c6bc8d563d1fbdc82d9e'',
      difficulty = 0, proof_b = 0\<rparr>"

text \<open>
  Eleven blocks with the indices 0 to 10, all of difficulty 3: block 0 is stamped 0 ms,
  block 1 is stamped 300,000 ms, and block 10 is stamped 310,000 ms.
\<close>

definition stampedBlock :: "int \<Rightarrow> int \<Rightarrow> int \<Rightarrow> Block" where
  "stampedBlock i ts d =
     \<lparr>index = i, timestamp = ts, transactions = [], hash = [], previousHash = [],
      difficulty = d, proof_b = 0\<rparr>"



text \<open>
  Three outputs with the amounts \<open>2 ^ 53\<close>, 1 and 1, whose sum the doubles do not
  reach: \<open>2 ^ 53 + 1\<close> rounds back to \<open>2 ^ 53\<close>.
\<close>

definition largeUnspentTxOuts :: "UnspentTxOut list" where
  "largeUnspentTxOuts =
     [\<lparr>txOutId_u = ''a'', txOutIndex_u = 0, address_u = alice, amount_u = 9007199254740992\<rparr>,
      \<lparr>txOutId_u = ''a'', txOutIndex_u = 1, address_u = alice, amount_u = 1\<rparr>,
      \<lparr>txOutId_u = ''a'', txOutIndex_u = 2, address_u = alice, amount_u = 1\<rparr>]"

section \<open>Rounding to a double\<close>

text \<open>
  \<open>exponentOf\<close> is the binary exponent, \<open>roundHalfEven\<close> is monotone, within one half
  of its argument and commutes with the addition of an even integer; a number
  \<open>j * 2 ^ s\<close> with \<open>j\<close> of at most 53 bits and \<open>s\<close> not below \<open>- 1074\<close> is a double,
  and so is every integer of magnitude at most \<open>2 ^ 53\<close>.
\<close>

lemma bitLength_upper: "n < 2 ^ bitLength n"
proof (induction n rule: bitLength.induct)
  case (1 n)
  show ?case
  proof (cases "n = 0")
    case True
    then show ?thesis by (simp add: bitLength.simps)
  next
    case False
    from 1 [OF False] have "n div 2 < 2 ^ bitLength (n div 2)" .
    then have "n < 2 * 2 ^ bitLength (n div 2)" by linarith
    with False show ?thesis by (subst bitLength.simps) simp
  qed
qed

lemma bitLength_lower: "0 < n \<Longrightarrow> 2 ^ bitLength n \<le> 2 * n"
proof (induction n rule: bitLength.induct)
  case (1 n)
  then have n: "n \<noteq> 0" by simp
  show ?case
  proof (cases "n div 2 = 0")
    case True
    with n have "n = 1" by linarith
    then show ?thesis by (simp add: bitLength.simps [of "Suc 0"] bitLength.simps [of 0])
  next
    case False
    with 1(1) [OF n] have "2 ^ bitLength (n div 2) \<le> 2 * (n div 2)" by simp
    then have "2 * 2 ^ bitLength (n div 2) \<le> 2 * n" by linarith
    with n show ?thesis by (subst bitLength.simps) simp
  qed
qed

lemma bitLength_pos: "0 < n \<Longrightarrow> 0 < bitLength n"
  by (subst bitLength.simps) simp

lemma exponentOf_bounds:
  assumes "0 < x"
  shows "2 powi exponentOf x \<le> x \<and> x < 2 powi (exponentOf x + 1)"
proof (cases "1 \<le> x")
  case True
  define m where "m = nat \<lfloor>x\<rfloor>"
  have m: "0 < m" "of_nat m \<le> x" "x < of_nat m + 1"
    using True by (simp_all add: m_def) linarith+
  define b where "b = bitLength m"
  have b: "0 < b" "m < 2 ^ b" "2 ^ b \<le> 2 * m"
    using bitLength_pos [OF m(1)] bitLength_upper [of m] bitLength_lower [OF m(1)]
    by (simp_all add: b_def)
  obtain b' where b': "b = Suc b'" using b(1) by (cases b) auto
  have e: "exponentOf x = int b'" using True by (simp add: exponentOf_def m_def [symmetric] b_def [symmetric] b')
  have "2 ^ b' \<le> m" using b(3) by (simp add: b')
  then have "(2::rat) ^ b' \<le> of_nat m" by (metis of_nat_le_iff of_nat_numeral of_nat_power)
  then have lo: "(2::rat) ^ b' \<le> x" using m(2) by linarith
  have "m + 1 \<le> 2 ^ b" using b(2) by simp
  then have "(of_nat (m + 1) :: rat) \<le> 2 ^ b" by (metis of_nat_le_iff of_nat_numeral of_nat_power)
  then have hi: "x < 2 ^ b" using m(3) by simp
  have "int b' + 1 = int b" by (simp add: b')
  then show ?thesis using lo hi by (simp add: e)
next
  case False
  define y where "y = 1 / x"
  have y: "1 < y" using False assms by (simp add: y_def)
  define m where "m = nat (\<lceil>y\<rceil> - 1)"
  have "2 \<le> \<lceil>y\<rceil>" using y by linarith
  then have m: "0 < m" "of_nat m < y" "y \<le> of_nat m + 1"
    by (simp_all add: m_def) linarith+
  define b where "b = bitLength m"
  have b: "0 < b" "m < 2 ^ b" "2 ^ b \<le> 2 * m"
    using bitLength_pos [OF m(1)] bitLength_upper [of m] bitLength_lower [OF m(1)]
    by (simp_all add: b_def)
  obtain b' where b': "b = Suc b'" using b(1) by (cases b) auto
  have e: "exponentOf x = - int b"
    using False by (simp add: exponentOf_def y_def [symmetric] m_def [symmetric] b_def [symmetric])
  have "2 ^ b' \<le> m" using b(3) by (simp add: b')
  then have "(2::rat) ^ b' \<le> of_nat m" by (metis of_nat_le_iff of_nat_numeral of_nat_power)
  then have lo: "(2::rat) ^ b' < y" using m(2) by linarith
  have "m + 1 \<le> 2 ^ b" using b(2) by simp
  then have "(of_nat (m + 1) :: rat) \<le> 2 ^ b" by (metis of_nat_le_iff of_nat_numeral of_nat_power)
  then have hi: "y \<le> 2 ^ b" using m(3) by simp
  have x: "x = 1 / y" by (simp add: y_def)
  have "1 / 2 ^ b \<le> x" unfolding x using hi y by (simp add: frac_le)
  moreover have "x < 1 / 2 ^ b'" unfolding x using lo y by (simp add: frac_less2)
  moreover have "- int b + 1 = - int b'" by (simp add: b')
  moreover have "(2::rat) powi (- int b) = 1 / 2 ^ b" "(2::rat) powi (- int b') = 1 / 2 ^ b'"
    by (simp_all add: power_int_minus divide_inverse)
  ultimately show ?thesis by (simp only: e)
qed

lemma power_int_two_mono: "a \<le> b \<Longrightarrow> (2::rat) powi a \<le> 2 powi b"
  by (rule power_int_increasing) simp_all

lemma exponentOf_unique:
  assumes "0 < x" "2 powi e \<le> x" "x < 2 powi (e + 1)"
  shows "exponentOf x = e"
proof -
  let ?f = "exponentOf x"
  from exponentOf_bounds [OF assms(1)] have f: "2 powi ?f \<le> x" "x < 2 powi (?f + 1)" by simp_all
  have "\<not> ?f + 1 \<le> e"
  proof
    assume "?f + 1 \<le> e"
    then have "(2::rat) powi (?f + 1) \<le> 2 powi e" by (rule power_int_two_mono)
    with f(2) assms(2) show False by linarith
  qed
  moreover have "\<not> e + 1 \<le> ?f"
  proof
    assume "e + 1 \<le> ?f"
    then have "(2::rat) powi (e + 1) \<le> 2 powi ?f" by (rule power_int_two_mono)
    with f(1) assms(3) show False by linarith
  qed
  ultimately show ?thesis by linarith
qed

lemma roundHalfEven_of_int [simp]: "roundHalfEven (of_int k) = k"
  by (simp add: roundHalfEven_def)





lemma power_int_two_less: "(2::rat) powi a < 2 powi b \<Longrightarrow> a < b"
  using power_int_two_mono [of b a] by (cases "a < b") simp_all

lemma roundToDouble_exact:
  assumes "\<bar>j\<bar> < 2 ^ 53" "- 1074 \<le> s"
  shows "roundToDouble (of_int j * 2 powi s) = of_int j * 2 powi s"
proof (cases "j = 0")
  case True
  then show ?thesis by (simp add: roundToDouble_def)
next
  case False
  define v :: rat where "v = of_int j * 2 powi s"
  have abs_v: "\<bar>v\<bar> = of_int \<bar>j\<bar> * 2 powi s" by (simp add: v_def abs_mult)
  have two: "(0::rat) < 2 powi s" by simp
  have v0: "v \<noteq> 0" using False by (simp add: v_def)
  then have vpos: "0 < \<bar>v\<bar>" by simp
  define e where "e = max (exponentOf \<bar>v\<bar>) (- 1022)"
  have "of_int \<bar>j\<bar> < (2::rat) ^ 53"
    using assms(1) by (metis of_int_less_iff of_int_numeral of_int_power)
  then have "\<bar>v\<bar> < 2 ^ 53 * 2 powi s" unfolding abs_v using two by (simp del: of_int_abs)
  also have "(2::rat) ^ 53 * 2 powi s = 2 powi (53 + s)" by (simp add: power_int_add)
  finally have "2 powi exponentOf \<bar>v\<bar> < (2::rat) powi (53 + s)"
    using exponentOf_bounds [OF vpos] by linarith
  then have "exponentOf \<bar>v\<bar> < 53 + s" by (rule power_int_two_less)
  then have k: "e - 52 \<le> s" using assms(2) by (simp add: e_def)
  define d where "d = nat (s - (e - 52))"
  have "s = int d + (e - 52)" using k by (simp add: d_def)
  then have "(2::rat) powi s = 2 powi (int d) * 2 powi (e - 52)"
    by (metis power_int_add zero_neq_numeral)
  then have split: "(2::rat) powi s = 2 ^ d * 2 powi (e - 52)" by simp
  have "v / 2 powi (e - 52) = of_int (j * 2 ^ d)" by (simp add: v_def split)
  then have "roundHalfEven (v / 2 powi (e - 52)) = j * 2 ^ d"
    by (simp only: roundHalfEven_of_int)
  then have "roundToDouble v = of_int (j * 2 ^ d) * 2 powi (e - 52)"
    using v0 by (simp add: roundToDouble_def Let_def e_def)
  also have "\<dots> = v" by (simp add: v_def split)
  finally show ?thesis by (simp add: v_def)
qed

lemma roundToDouble_of_int:
  assumes "\<bar>k\<bar> \<le> 2 ^ 53"
  shows "roundToDouble (of_int k) = of_int k"
proof (cases "\<bar>k\<bar> < 2 ^ 53")
  case True
  from roundToDouble_exact [OF True, of 0] show ?thesis by simp
next
  case False
  then have "k = 1 * 2 ^ 53 \<or> k = - 1 * 2 ^ 53" using assms by linarith
  then have "(of_int k :: rat) = of_int 1 * 2 powi 53 \<or> (of_int k :: rat) = of_int (- 1) * 2 powi 53"
    by auto
  then show ?thesis
    using roundToDouble_exact [of 1 53] roundToDouble_exact [of "- 1" 53] by auto
qed


lemma roundToDouble_normal:
  assumes "0 < x" "2 powi e \<le> x" "x < 2 powi (e + 1)" "- 1022 \<le> e"
  shows "roundToDouble x = of_int (roundHalfEven (x / 2 powi (e - 52))) * 2 powi (e - 52)"
proof -
  have "exponentOf x = e" using assms(1-3) by (rule exponentOf_unique)
  then have "max (exponentOf \<bar>x\<bar>) (- 1022) = e" using assms(1,4) by simp
  moreover have "x \<noteq> 0" using assms(1) by simp
  ultimately show ?thesis unfolding roundToDouble_def Let_def by simp
qed

lemma roundHalfEven_nearest: "\<bar>x - of_int m\<bar> < 1 / 2 \<Longrightarrow> roundHalfEven x = m"
proof -
  assume a: "\<bar>x - of_int m\<bar> < 1 / 2"
  have f: "of_int \<lfloor>x\<rfloor> \<le> x" "x < of_int \<lfloor>x\<rfloor> + 1" by linarith+
  have "\<lfloor>x\<rfloor> = m \<or> \<lfloor>x\<rfloor> = m - 1"
  proof -
    from a have "x - of_int m < 1 / 2" "- (x - of_int m) < 1 / 2"
      by (simp_all only: abs_less_iff)
    then have "of_int (m - 1) < x" "x < of_int (m + 1)" by simp_all
    then show ?thesis by linarith
  qed
  then show ?thesis
    using a unfolding roundHalfEven_def Let_def by (auto simp: abs_less_iff)
qed

lemma roundHalfEven_tie: "x = of_int m + 1 / 2 \<Longrightarrow> even m \<Longrightarrow> roundHalfEven x = m"
proof -
  assume a: "x = of_int m + 1 / 2" "even m"
  have "\<lfloor>x\<rfloor> = m" unfolding a(1) by (rule floor_unique) simp_all
  then show ?thesis using a unfolding roundHalfEven_def Let_def by simp
qed

lemma roundToDouble_numeral:
  "(numeral n :: int) \<le> 2 ^ 53 \<Longrightarrow> roundToDouble (numeral n) = numeral n"
  using roundToDouble_of_int [of "numeral n"] by simp

lemma roundToDouble_zero: "roundToDouble 0 = 0"
  by (simp add: roundToDouble_def)

lemma roundToDouble_one: "roundToDouble 1 = 1"
  using roundToDouble_of_int [of 1] by simp

lemma roundToInteger_exact: "\<bar>k\<bar> \<le> 2 ^ 53 \<Longrightarrow> roundToInteger k = k"
  by (simp add: roundToInteger_def roundToDouble_of_int)

text \<open>The double nearest to an integer is an integer.\<close>

lemma roundToInteger_double: "of_int (roundToInteger k) = roundToDouble (of_int k)"
proof (cases "\<bar>k\<bar> \<le> 2 ^ 53")
  case True
  then show ?thesis by (simp add: roundToInteger_exact roundToDouble_of_int)
next
  case False
  define x :: rat where "x = of_int k"
  have "(2::int) ^ 53 < \<bar>k\<bar>" using False by simp
  then have "(of_int (2 ^ 53) :: rat) < of_int \<bar>k\<bar>" by (simp only: of_int_less_iff)
  then have big: "2 powi 53 < \<bar>x\<bar>" by (simp add: x_def)
  then have pos: "0 < \<bar>x\<bar>" by (simp add: less_trans [of 0 "2 powi 53" "\<bar>x\<bar>"])
  have "(2::rat) powi 53 < 2 powi (exponentOf \<bar>x\<bar> + 1)"
    using exponentOf_bounds [OF pos] big by linarith
  then have "53 < exponentOf \<bar>x\<bar> + 1" by (rule power_int_two_less)
  then have e: "52 < exponentOf \<bar>x\<bar>" by simp
  define n where "n = nat (exponentOf \<bar>x\<bar> - 52)"
  have m: "max (exponentOf \<bar>x\<bar>) (- 1022) = exponentOf \<bar>x\<bar>" using e by simp
  have "exponentOf \<bar>x\<bar> - 52 = int n" using e by (simp add: n_def)
  then have q: "(2::rat) powi (exponentOf \<bar>x\<bar> - 52) = of_int (2 ^ n)" by simp
  have "x \<noteq> 0" using pos by simp
  then have "roundToDouble x = of_int (roundHalfEven (x / of_int (2 ^ n)) * 2 ^ n)"
    unfolding roundToDouble_def Let_def m q by simp
  then show ?thesis unfolding roundToInteger_def x_def [symmetric] by (simp only: floor_of_int)
qed

text \<open>Chain weights of integer value up to \<open>2 ^ 53\<close> are computed exactly.\<close>

lemma toWeight_of_int: "\<bar>k\<bar> \<le> 2 ^ 53 \<Longrightarrow> toWeight (of_int k) = Finite (of_int k)"
proof -
  assume k: "\<bar>k\<bar> \<le> 2 ^ 53"
  then have "k \<le> 2 ^ 53" by simp
  then have "(of_int k :: rat) \<le> of_int (2 ^ 53)" by (simp only: of_int_le_iff)
  moreover have "(2::rat) ^ 53 < 2 ^ 1024" by (rule power_strict_increasing) simp_all
  ultimately have "\<not> (2::rat) ^ 1024 \<le> of_int k" by simp
  then show ?thesis unfolding toWeight_def roundToDouble_of_int [OF k] by simp
qed

lemma toWeight_numeral:
  "(numeral n :: int) \<le> 2 ^ 53 \<Longrightarrow> toWeight (numeral n) = Finite (numeral n)"
  using toWeight_of_int [of "numeral n"] by simp

lemma toWeight_zero: "toWeight 0 = Finite 0"
  using toWeight_of_int [of 0] by simp

lemma toWeight_one: "toWeight 1 = Finite 1"
  using toWeight_of_int [of 1] by simp

lemma mathPow2_exact:
  assumes "0 \<le> d" "(2::int) ^ nat d \<le> 2 ^ 53"
  shows "mathPow2 d = Finite (of_int (2 ^ nat d))"
proof -
  have "(2::rat) powi d = of_int (2 ^ nat d)" using assms(1) by (simp add: power_int_def)
  moreover have "\<bar>(2::int) ^ nat d\<bar> \<le> 2 ^ 53" using assms(2) by simp
  ultimately show ?thesis using toWeight_of_int [of "2 ^ nat d"] by (simp only: mathPow2_def)
qed

lemma foldl_addWeight_exact:
  "list_all (\<lambda>d. 0 \<le> d) ds \<Longrightarrow> 0 \<le> a \<Longrightarrow> a + (\<Sum>d\<leftarrow>ds. 2 ^ nat d) \<le> (2::int) ^ 53 \<Longrightarrow>
     foldl addWeight (Finite (of_int a)) (map mathPow2 ds)
       = Finite (of_int (a + (\<Sum>d\<leftarrow>ds. 2 ^ nat d)))"
proof (induction ds arbitrary: a)
  case Nil
  then show ?case by simp
next
  case (Cons d ds)
  have rest: "0 \<le> (\<Sum>d\<leftarrow>ds. (2::int) ^ nat d)" by (rule sum_list_nonneg) auto
  have d: "0 \<le> d" "list_all (\<lambda>d. 0 \<le> d) ds" using Cons.prems(1) by simp_all
  have small: "(2::int) ^ nat d \<le> 2 ^ 53" "\<bar>a + 2 ^ nat d\<bar> \<le> 2 ^ 53"
    using Cons.prems(2,3) rest by simp_all
  have "addWeight (Finite (of_int a)) (mathPow2 d) = toWeight (of_int (a + 2 ^ nat d))"
    by (simp add: mathPow2_exact [OF d(1) small(1)])
  also have "\<dots> = Finite (of_int (a + 2 ^ nat d))" using small(2) by (rule toWeight_of_int)
  finally have step: "addWeight (Finite (of_int a)) (mathPow2 d) = Finite (of_int (a + 2 ^ nat d))" .
  have "foldl addWeight (Finite (of_int (a + 2 ^ nat d))) (map mathPow2 ds)
      = Finite (of_int ((a + 2 ^ nat d) + (\<Sum>d\<leftarrow>ds. 2 ^ nat d)))"
    using d(2) Cons.prems(2,3) by (intro Cons.IH) simp_all
  then show ?case by (simp add: step add.assoc)
qed

lemma chainWeight_of_int:
  "list_all (\<lambda>block. 0 \<le> difficulty block) chain \<Longrightarrow>
     chainWeight chain = of_int (\<Sum>d\<leftarrow>map difficulty chain. 2 ^ nat d)"
  by (induction chain) (simp_all add: chainWeight_def power_int_def)

lemma getAccumulatedDifficulty_exact:
  assumes "exactWeight chain"
  shows "getAccumulatedDifficulty chain = Finite (chainWeight chain)"
proof -
  have nn: "list_all (\<lambda>block. 0 \<le> difficulty block) chain" and le: "chainWeight chain \<le> 2 ^ 53"
    using assms by (simp_all add: exactWeight_def)
  note w = chainWeight_of_int [OF nn]
  have "(of_int (\<Sum>d\<leftarrow>map difficulty chain. 2 ^ nat d) :: rat) \<le> of_int (2 ^ 53)"
    using le unfolding w by simp
  then have "(\<Sum>d\<leftarrow>map difficulty chain. 2 ^ nat d) \<le> (2::int) ^ 53" by (simp only: of_int_le_iff)
  moreover have "list_all (\<lambda>d. 0 \<le> d) (map difficulty chain)"
    using nn by (simp add: list_all_iff)
  ultimately have "foldl addWeight (Finite (of_int 0)) (map mathPow2 (map difficulty chain))
      = Finite (of_int (0 + (\<Sum>d\<leftarrow>map difficulty chain. 2 ^ nat d)))"
    by (intro foldl_addWeight_exact) simp_all
  then show ?thesis by (simp add: getAccumulatedDifficulty_def w)
qed

lemmas double_simps =
  roundToDouble_numeral roundToDouble_zero roundToDouble_one roundToInteger_exact
  toWeight_numeral toWeight_zero toWeight_one mathPow2_def

section \<open>Evaluation of the examples\<close>

lemmas tx_defs =
  getTransactionId_def txInContent_def txOutContent_def numberToString_def digits.simps
  digitChar_def findUnspentTxOut_def isHexChar_def validateAddress_def
  validateTxInStructure_def validateTxOutStructure_def validateTransactionStructure_def
  validateTxIn_def getTxInAmount_def validateTransaction_def validateCoinbaseTx_def
  hasDuplicates_def validateBlockTransactions_def newUnspentTxOuts_def consumes_def
  updateUnspentTxOuts_def processTransactions_def COINBASE_AMOUNT_def

lemmas chain_defs =
  transactionsToString_def generateHash_def generateHashForBlock_def
  validateBlockStructure_def validateTimestamp_def validateNewBlock_def addBlock_def
  isValidGenesis_def validateChain_def getAccumulatedDifficulty_def replaceChain_def
  double_simps

lemmas data_defs =
  tableCrypto_def sha256Table_def signatureTable_def keyTable_def
  genesisAddress_def alice_def bob_def alicePrivateKey_def bobPrivateKey_def
  genesisTransaction_def genesisBlock_def genesisUnspentTxOuts_def initialNode_def
  coinbase1_def coinbase2_def

text \<open>
  The module initialises \<open>unspentTxOuts\<close> by processing the genesis transactions
  from the empty set; with the digests of the table this succeeds.
\<close>

lemma genesis_processed:
  "processTransactions tableCrypto (transactions genesisBlock) [] 0 = Inr genesisUnspentTxOuts"
  by (simp add: tx_defs data_defs)

lemma weakBlock_added:
  "addBlock tableCrypto 1734667281000 initialNode weakBlock =
     (Inr True,
      \<lparr>blockchain = [genesisBlock, weakBlock],
       unspentTxOuts = genesisUnspentTxOuts @ newUnspentTxOuts coinbase1,
       transactionPool = []\<rparr>)"
  by (simp add: tx_defs chain_defs data_defs weakBlock_def)

lemma weakBlock_binary:
  "hexToBinary (take 2 (hash weakBlock)) = Some ''00011111''"
  by (simp add: weakBlock_def hexDigitValue_def bit4_def)

lemma weakBlock_difficulty:
  "checkHashDifficulty (hash weakBlock) (difficulty weakBlock) = Inr False"
  by code_simp

lemma localNode_reached:
  "addBlock tableCrypto 1734667281000 initialNode localBlock1 = (Inr True, localNode)"
  by (simp add: tx_defs chain_defs data_defs localBlock1_def localNode_def)

lemma forkChain_replaces:
  "replaceChain tableCrypto 1734667300000 localNode forkChain =
     (Inr True,
      \<lparr>blockchain = forkChain,
       unspentTxOuts =
         genesisUnspentTxOuts @ newUnspentTxOuts coinbase1 @ newUnspentTxOuts coinbase2,
       transactionPool = []\<rparr>)"
  by (simp add: tx_defs chain_defs data_defs localBlock1_def localNode_def forkBlock1_def
        forkBlock2_def forkChain_def updateTransactionPool_def)

lemma forkChain_weights:
  "getAccumulatedDifficulty forkChain = Finite 3
   \<and> getAccumulatedDifficulty (blockchain localNode) = Finite 3
   \<and> chainWeight forkChain = 3 \<and> chainWeight (blockchain localNode) = 3"
  by (simp add: getAccumulatedDifficulty_def chainWeight_def double_simps forkChain_def
        localNode_def forkBlock1_def forkBlock2_def localBlock1_def genesisBlock_def)

lemma earlyBlock_hash: "generateHashForBlock tableCrypto earlyBlock = hash earlyBlock"
  by (simp add: tx_defs chain_defs data_defs earlyBlock_def)

section \<open>Chain validation against the specification's words\<close>

lemma linkedFrom_zip:
  "linkedFrom c now (Some p) bs =
     list_all (\<lambda>(previousBlock, newBlock). validateNewBlock c now newBlock previousBlock)
       (zip (p # bs) bs)"
  by (induction bs arbitrary: p) simp_all

lemma linkedChain_linkedFrom: "linkedChain c now chain = linkedFrom c now None chain"
  by (cases chain) (simp_all add: linkedChain_def linkedFrom_zip)

lemma validateChainLoop_Some:
  "validateChainLoop c now prev bs u = Inr (Some u') \<longleftrightarrow>
     linkedFrom c now prev bs \<and> replayTransactions c bs u = Inr u'"
  by (induction bs arbitrary: prev u) (auto split: option.splits sum.splits)

lemma validateChain_Some:
  "validateChain c now localChain cand = Inr (Some u) \<longleftrightarrow>
     isValidGenesis cand localChain \<and> linkedChain c now cand
     \<and> replayTransactions c cand [] = Inr u"
  by (simp add: validateChain_def validateChainLoop_Some linkedChain_linkedFrom)

lemma isValidGenesis_longer:
  "length localChain < length cand \<Longrightarrow>
     isValidGenesis cand localChain \<longleftrightarrow> cand \<noteq> [] \<and> localChain \<noteq> [] \<and> hd cand = hd localChain"
  by (auto simp: isValidGenesis_def split: list.splits)

section \<open>Proof of work on appended blocks\<close>

text \<open>
  C1. The claim: every block that \<open>addBlock\<close> accepts has a hash whose binary
  expansion begins with \<open>difficulty\<close> zero bits, the proof-of-work check being one of
  the validation steps. The code: \<open>validateNewBlock\<close> never calls
  \<open>checkHashDifficulty\<close>, which only the mining loop uses. The node that holds the
  genesis block accepts \<open>weakBlock\<close>, which states difficulty 20 while the binary
  expansion of its hash begins with three zero bits.
\<close>

theorem addBlock_accepts_hash_below_difficulty:
  "addBlock tableCrypto 1734667281000 initialNode weakBlock =
     (Inr True,
      \<lparr>blockchain = [genesisBlock, weakBlock],
       unspentTxOuts = genesisUnspentTxOuts @ newUnspentTxOuts coinbase1,
       transactionPool = []\<rparr>)
   \<and> difficulty weakBlock = 20
   \<and> hexToBinary (take 2 (hash weakBlock)) = Some ''00011111''
   \<and> checkHashDifficulty (hash weakBlock) (difficulty weakBlock) = Inr False"
  using weakBlock_added weakBlock_binary weakBlock_difficulty by (simp add: weakBlock_def)

section \<open>Chain replacement\<close>

text \<open>
  The sums of \<open>getAccumulatedDifficulty\<close> round: the chains with the difficulties
  0, 54, 1 and 0, 53, 53, 0 weigh \<open>2 ^ 54 + 3\<close> and \<open>2 ^ 54 + 2\<close>, and the code computes
  \<open>2 ^ 54\<close> for both.
\<close>

lemma roundToDouble_above_2_53:
  "roundToDouble 9007199254740993 = 9007199254740992"
  "roundToDouble 18014398509481985 = 18014398509481984"
  "roundToDouble 18014398509481986 = 18014398509481984"
  using roundToDouble_normal [of 9007199254740993 53]
    roundHalfEven_tie [of "9007199254740993 / 2" 4503599627370496]
    roundToDouble_normal [of 18014398509481985 54]
    roundHalfEven_nearest [of "18014398509481985 / 4" 4503599627370496]
    roundToDouble_normal [of 18014398509481986 54]
    roundHalfEven_tie [of "18014398509481986 / 4" 4503599627370496]
  by simp_all

lemma mathPow2_53_54:
  "mathPow2 53 = Finite 9007199254740992" "mathPow2 54 = Finite 18014398509481984"
proof -
  have "(2::rat) ^ 54 < 2 ^ 1024" by (rule power_strict_increasing) simp_all
  then have a: "\<not> (2::rat) ^ 1024 \<le> 18014398509481984" by simp
  have b: "roundToDouble 18014398509481984 = 18014398509481984"
    using roundToDouble_exact [of 1 54] by simp
  show "mathPow2 53 = Finite 9007199254740992" by (simp add: double_simps)
  show "mathPow2 54 = Finite 18014398509481984" using a by (simp add: mathPow2_def toWeight_def b)
qed

lemma getAccumulatedDifficulty_rounds:
  "getAccumulatedDifficulty [stampedBlock 0 0 0, stampedBlock 1 0 54, stampedBlock 2 0 1]
     = Finite (2 ^ 54)
   \<and> chainWeight [stampedBlock 0 0 0, stampedBlock 1 0 54, stampedBlock 2 0 1] = 2 ^ 54 + 3
   \<and> getAccumulatedDifficulty
        [stampedBlock 0 0 0, stampedBlock 1 0 53, stampedBlock 2 0 53, stampedBlock 3 0 0]
     = Finite (2 ^ 54)
   \<and> chainWeight
        [stampedBlock 0 0 0, stampedBlock 1 0 53, stampedBlock 2 0 53, stampedBlock 3 0 0]
     = 2 ^ 54 + 2"
proof -
  have "(2::rat) ^ 54 < 2 ^ 1024" by (rule power_strict_increasing) simp_all
  then have a: "\<not> (2::rat) ^ 1024 \<le> 18014398509481984" "\<not> (2::rat) ^ 1024 \<le> 9007199254740992"
    by simp_all
  have b: "roundToDouble 18014398509481984 = 18014398509481984"
    using roundToDouble_exact [of 1 54] by simp
  have w: "toWeight 9007199254740993 = Finite 9007199254740992"
    "toWeight 18014398509481984 = Finite 18014398509481984"
    "toWeight 18014398509481985 = Finite 18014398509481984"
    "toWeight 18014398509481986 = Finite 18014398509481984"
    using a by (simp_all add: toWeight_def roundToDouble_above_2_53 b)
  have p: "mathPow2 0 = Finite 1" "mathPow2 1 = Finite 2" by (simp_all add: double_simps)
  show ?thesis
    by (simp add: getAccumulatedDifficulty_def chainWeight_def stampedBlock_def p mathPow2_53_54
          w toWeight_numeral toWeight_one)
qed

text \<open>
  C2, as the claim states it, fails: a candidate whose weight equals the weight of the
  local chain is accepted when it is longer. The local chain, genesis and a block of
  difficulty 1 (a chain the node reaches by \<open>localNode_reached\<close>), weighs 3, and so
  does the candidate of three blocks of difficulty 0, which replaces it.
\<close>

theorem replaceChain_accepts_equal_weight:
  "getAccumulatedDifficulty forkChain = getAccumulatedDifficulty (blockchain localNode)
   \<and> chainWeight forkChain = chainWeight (blockchain localNode)
   \<and> fst (replaceChain tableCrypto 1734667300000 localNode forkChain) = Inr True
   \<and> blockchain (snd (replaceChain tableCrypto 1734667300000 localNode forkChain)) = forkChain"
  using forkChain_replaces forkChain_weights by simp

text \<open>
  C2, amended. \<open>replaceChain(candidate)\<close> returns true exactly when the candidate's
  first block equals the first block of the local chain, every later block passes
  \<open>validateNewBlock\<close> against its predecessor, the transactions of all blocks replay
  without error from the empty set, the candidate's accumulated difficulty, as
  \<open>getAccumulatedDifficulty\<close> computes it in double arithmetic, is not less than the
  local chain's, and the candidate is strictly longer. When in both chains no difficulty
  is negative and the sum of \<open>2 ^ difficulty\<close> is at most \<open>2 ^ 53\<close>, that comparison is
  the comparison of the sums of \<open>2 ^ difficulty\<close>: the candidate's weight is not less
  than the local chain's weight. On acceptance the chain becomes the candidate, the set
  of unspent outputs becomes the replayed set and the pool is updated against it; in
  every other case the node is unchanged.
\<close>

theorem replaceChain_accepts_iff:
  "(fst (replaceChain c now st cand) = Inr True \<longleftrightarrow>
      cand \<noteq> [] \<and> blockchain st \<noteq> [] \<and> hd cand = hd (blockchain st)
      \<and> linkedChain c now cand
      \<and> (\<exists>u. replayTransactions c cand [] = Inr u)
      \<and> \<not> lessWeight (getAccumulatedDifficulty cand) (getAccumulatedDifficulty (blockchain st))
      \<and> length (blockchain st) < length cand)
   \<and> (exactWeight (blockchain st) \<longrightarrow> exactWeight cand \<longrightarrow>
        (\<not> lessWeight (getAccumulatedDifficulty cand) (getAccumulatedDifficulty (blockchain st))
           \<longleftrightarrow> chainWeight (blockchain st) \<le> chainWeight cand))
   \<and> (fst (replaceChain c now st cand) = Inr True \<longrightarrow>
        blockchain (snd (replaceChain c now st cand)) = cand
        \<and> replayTransactions c cand [] = Inr (unspentTxOuts (snd (replaceChain c now st cand)))
        \<and> transactionPool (snd (replaceChain c now st cand))
            = updateTransactionPool (unspentTxOuts (snd (replaceChain c now st cand)))
                (transactionPool st))
   \<and> (fst (replaceChain c now st cand) \<noteq> Inr True \<longrightarrow> snd (replaceChain c now st cand) = st)"
proof -
  have exact: "exactWeight (blockchain st) \<longrightarrow> exactWeight cand \<longrightarrow>
        (\<not> lessWeight (getAccumulatedDifficulty cand) (getAccumulatedDifficulty (blockchain st))
           \<longleftrightarrow> chainWeight (blockchain st) \<le> chainWeight cand)"
    by (simp add: getAccumulatedDifficulty_exact not_less)
  have rest: "(fst (replaceChain c now st cand) = Inr True \<longleftrightarrow>
      cand \<noteq> [] \<and> blockchain st \<noteq> [] \<and> hd cand = hd (blockchain st)
      \<and> linkedChain c now cand
      \<and> (\<exists>u. replayTransactions c cand [] = Inr u)
      \<and> \<not> lessWeight (getAccumulatedDifficulty cand) (getAccumulatedDifficulty (blockchain st))
      \<and> length (blockchain st) < length cand)
   \<and> (fst (replaceChain c now st cand) = Inr True \<longrightarrow>
        blockchain (snd (replaceChain c now st cand)) = cand
        \<and> replayTransactions c cand [] = Inr (unspentTxOuts (snd (replaceChain c now st cand)))
        \<and> transactionPool (snd (replaceChain c now st cand))
            = updateTransactionPool (unspentTxOuts (snd (replaceChain c now st cand)))
                (transactionPool st))
   \<and> (fst (replaceChain c now st cand) \<noteq> Inr True \<longrightarrow> snd (replaceChain c now st cand) = st)"
  proof (cases "validateChain c now (blockchain st) cand")
    case (Inl e)
    have "\<not> (isValidGenesis cand (blockchain st) \<and> linkedChain c now cand
              \<and> (\<exists>u. replayTransactions c cand [] = Inr u))"
      using Inl validateChain_Some [of c now "blockchain st" cand] by auto
    moreover have "replaceChain c now st cand = (Inl e, st)"
      using Inl by (simp add: replaceChain_def)
    ultimately show ?thesis
      using isValidGenesis_longer [of "blockchain st" cand] by auto
  next
    case (Inr r)
    show ?thesis
    proof (cases r)
      case None
      have "\<not> (isValidGenesis cand (blockchain st) \<and> linkedChain c now cand
                \<and> (\<exists>u. replayTransactions c cand [] = Inr u))"
        using Inr None validateChain_Some [of c now "blockchain st" cand] by auto
      moreover have "replaceChain c now st cand = (Inr False, st)"
        using Inr None by (simp add: replaceChain_def)
      ultimately show ?thesis
        using isValidGenesis_longer [of "blockchain st" cand] by auto
    next
      case (Some u)
      have v: "isValidGenesis cand (blockchain st)" "linkedChain c now cand"
        "replayTransactions c cand [] = Inr u"
        using Inr Some validateChain_Some [of c now "blockchain st" cand u] by auto
      show ?thesis
        using Inr Some v isValidGenesis_longer [of "blockchain st" cand]
        by (auto simp: replaceChain_def not_less)
    qed
  qed
  show ?thesis using exact rest by blast
qed

theorem replaceChain_accepts_iff_witness:
  "linkedChain tableCrypto 1734667300000 forkChain
   \<and> replayTransactions tableCrypto forkChain []
       = Inr (genesisUnspentTxOuts @ newUnspentTxOuts coinbase1 @ newUnspentTxOuts coinbase2)
   \<and> exactWeight (blockchain localNode) \<and> exactWeight forkChain
   \<and> chainWeight (blockchain localNode) \<le> chainWeight forkChain
   \<and> \<not> lessWeight (getAccumulatedDifficulty forkChain)
         (getAccumulatedDifficulty (blockchain localNode))
   \<and> length (blockchain localNode) < length forkChain
   \<and> fst (replaceChain tableCrypto 1734667300000 localNode forkChain) = Inr True
   \<and> blockchain (snd (replaceChain tableCrypto 1734667300000 localNode forkChain)) = forkChain
   \<and> fst (replaceChain tableCrypto 1734667300000 localNode [genesisBlock]) \<noteq> Inr True
   \<and> snd (replaceChain tableCrypto 1734667300000 localNode [genesisBlock]) = localNode"
proof -
  have link: "linkedChain tableCrypto 1734667300000 forkChain"
    by (simp add: linkedChain_def tx_defs chain_defs data_defs forkBlock1_def forkBlock2_def
          forkChain_def)
  have replay: "replayTransactions tableCrypto forkChain []
      = Inr (genesisUnspentTxOuts @ newUnspentTxOuts coinbase1 @ newUnspentTxOuts coinbase2)"
    by (simp add: tx_defs data_defs forkBlock1_def forkBlock2_def forkChain_def)
  have weight: "chainWeight (blockchain localNode) \<le> chainWeight forkChain"
    by (simp add: chainWeight_def forkChain_def localNode_def forkBlock1_def forkBlock2_def
          localBlock1_def genesisBlock_def)
  have exact: "exactWeight (blockchain localNode)" "exactWeight forkChain"
    by (simp_all add: exactWeight_def chainWeight_def forkChain_def localNode_def
          forkBlock1_def forkBlock2_def localBlock1_def genesisBlock_def)
  have heavy: "\<not> lessWeight (getAccumulatedDifficulty forkChain)
         (getAccumulatedDifficulty (blockchain localNode))"
    using replaceChain_accepts_iff [of tableCrypto 1734667300000 localNode forkChain]
      exact weight by blast
  have len: "length (blockchain localNode) < length forkChain"
    "forkChain \<noteq> []" "blockchain localNode \<noteq> []" "hd forkChain = hd (blockchain localNode)"
    "\<not> length (blockchain localNode) < length [genesisBlock]"
    by (simp_all add: forkChain_def localNode_def)
  have accepted: "fst (replaceChain tableCrypto 1734667300000 localNode forkChain) = Inr True"
    using replaceChain_accepts_iff [of tableCrypto 1734667300000 localNode forkChain]
      link replay heavy len by blast
  then have replaced:
    "blockchain (snd (replaceChain tableCrypto 1734667300000 localNode forkChain)) = forkChain"
    using replaceChain_accepts_iff [of tableCrypto 1734667300000 localNode forkChain] by blast
  have rejected: "fst (replaceChain tableCrypto 1734667300000 localNode [genesisBlock]) \<noteq> Inr True"
    using replaceChain_accepts_iff [of tableCrypto 1734667300000 localNode "[genesisBlock]"] len
    by blast
  then have unchanged: "snd (replaceChain tableCrypto 1734667300000 localNode [genesisBlock]) = localNode"
    using replaceChain_accepts_iff [of tableCrypto 1734667300000 localNode "[genesisBlock]"]
    by blast
  show ?thesis
    using link replay weight exact heavy len(1) accepted replaced rejected unchanged by blast
qed

section \<open>Block timestamps\<close>

text \<open>
  C4. The claim: a timestamp is accepted exactly when
  \<open>previous.timestamp - 60000 < new.timestamp\<close> and \<open>new.timestamp - 60000 < now\<close>,
  a tolerance of one minute. The code subtracts 60 from millisecond timestamps, a
  tolerance of 60 ms, against its own comment (valid if within the last minute).
  \<open>earlyBlock\<close> is stamped 59,999 ms before the genesis block, its hash is the digest
  of its fields and the clock stands at the genesis timestamp: both conjuncts of the
  claim hold and the code rejects the block.
\<close>

theorem validateTimestamp_tolerates_60_ms_only:
  "timestamp earlyBlock = timestamp genesisBlock - 59999
   \<and> timestamp genesisBlock - 60000 < timestamp earlyBlock
   \<and> timestamp earlyBlock - 60000 < 1734667274522
   \<and> generateHashForBlock tableCrypto earlyBlock = hash earlyBlock
   \<and> validateTimestamp 1734667274522 earlyBlock genesisBlock = False
   \<and> validateNewBlock tableCrypto 1734667274522 earlyBlock genesisBlock = False"
  using earlyBlock_hash
  by (simp add: validateNewBlock_def validateTimestamp_def earlyBlock_def genesisBlock_def)

section \<open>The update of the unspent outputs\<close>

lemma consumes_spentBy: "consumes ins uTxO = spentBy ins uTxO"
  unfolding consumes_def spentBy_def outputKey_def inputKey_def list_ex_iff image_iff prod.inject
  by metis

lemma spentBy_append: "spentBy (xs @ ys) uTxO = (spentBy xs uTxO \<or> spentBy ys uTxO)"
  by (auto simp: spentBy_def)

lemma newUnspentTxOuts_createdOutputs: "newUnspentTxOuts tx = createdOutputs tx"
  unfolding newUnspentTxOuts_def createdOutputs_def
  by (rule nth_equalityI) (simp_all add: nth_enumerate_eq)

lemma updateUnspentTxOuts_batch:
  "updateUnspentTxOuts txs u =
     filter (\<lambda>uTxO. \<not> spentBy (concat (map txIns txs)) uTxO) u
       @ concat (map createdOutputs txs)"
  by (simp add: updateUnspentTxOuts_def consumes_spentBy newUnspentTxOuts_createdOutputs
        cong: map_cong)

lemma sequentialUpdate_batch:
  "noSpendWithinBlock txs \<Longrightarrow>
     sequentialUpdate txs u =
       filter (\<lambda>uTxO. \<not> spentBy (concat (map txIns txs)) uTxO) u
         @ concat (map createdOutputs txs)"
proof (induction txs arbitrary: u)
  case Nil
  then show ?case by (simp add: sequentialUpdate_def spentBy_def)
next
  case (Cons tx rest)
  have keep: "filter (\<lambda>uTxO. \<not> spentBy (concat (map txIns rest)) uTxO) (createdOutputs tx)
      = createdOutputs tx"
    using Cons.prems by (simp add: list_all_iff)
  have "sequentialUpdate (tx # rest) u = sequentialUpdate rest (applyTransaction u tx)"
    by (simp add: sequentialUpdate_def)
  also have "\<dots> = filter (\<lambda>uTxO. \<not> spentBy (concat (map txIns rest)) uTxO) (applyTransaction u tx)
      @ concat (map createdOutputs rest)"
    using Cons.IH Cons.prems by simp
  finally show ?case
    using keep by (auto simp: applyTransaction_def spentBy_append intro: filter_cong)
qed

lemma addBlock_throw_unchanged:
  "processTransactions c (transactions b) (unspentTxOuts st) (index b) = Inl e \<Longrightarrow>
     snd (addBlock c now st b) = st"
  by (simp add: addBlock_def)

lemma crafted_batch:
  "processTransactions tableCrypto [craftedCoinbase5, paymentTx] (unspentTxOuts localNode) 5 =
     Inr [\<lparr>txOutId_u = id_tx genesisTransaction, txOutIndex_u = 0,
           address_u = genesisAddress, amount_u = 50\<rparr>,
          \<lparr>txOutId_u = id_tx coinbase1, txOutIndex_u = 0,
           address_u = drop 16 alice, amount_u = 50\<rparr>,
          \<lparr>txOutId_u = id_tx paymentTx, txOutIndex_u = 0, address_u = bob, amount_u = 30\<rparr>,
          \<lparr>txOutId_u = id_tx paymentTx, txOutIndex_u = 1, address_u = alice, amount_u = 20\<rparr>]"
  by (simp add: tx_defs data_defs craftedCoinbase5_def paymentTx_def localNode_def)

lemma crafted_sequential:
  "sequentialUpdate [craftedCoinbase5, paymentTx] (unspentTxOuts localNode) =
     [\<lparr>txOutId_u = id_tx genesisTransaction, txOutIndex_u = 0,
       address_u = genesisAddress, amount_u = 50\<rparr>,
      \<lparr>txOutId_u = id_tx paymentTx, txOutIndex_u = 0, address_u = bob, amount_u = 30\<rparr>,
      \<lparr>txOutId_u = id_tx paymentTx, txOutIndex_u = 1, address_u = alice, amount_u = 20\<rparr>]"
  by (simp add: sequentialUpdate_def applyTransaction_def createdOutputs_def spentBy_def
        outputKey_def inputKey_def craftedCoinbase5_def paymentTx_def localNode_def
        newUnspentTxOuts_def genesisUnspentTxOuts_def genesisTransaction_def coinbase1_def)

lemma payment_batch:
  "processTransactions tableCrypto [coinbase2, paymentTx] aliceUnspentTxOuts 2 =
     Inr [\<lparr>txOutId_u = id_tx coinbase2, txOutIndex_u = 0, address_u = alice, amount_u = 50\<rparr>,
          \<lparr>txOutId_u = id_tx paymentTx, txOutIndex_u = 0, address_u = bob, amount_u = 30\<rparr>,
          \<lparr>txOutId_u = id_tx paymentTx, txOutIndex_u = 1, address_u = alice, amount_u = 20\<rparr>]"
  by (simp add: tx_defs data_defs paymentTx_def aliceUnspentTxOuts_def)

lemma payment_noSpend: "noSpendWithinBlock [coinbase2, paymentTx]"
  by (simp add: createdOutputs_def spentBy_def outputKey_def inputKey_def coinbase2_def
        paymentTx_def)

lemma wrongCoinbase_block:
  "validateNewBlock tableCrypto 1734667281000 (forkBlock1\<lparr>transactions := [coinbase2]\<rparr>) genesisBlock
   \<and> processTransactions tableCrypto [coinbase2] genesisUnspentTxOuts 1 = Inl InvalidBlockTransactions"
  by (simp add: tx_defs chain_defs data_defs forkBlock1_def)

text \<open>
  C3, as the claim states it, fails: the code removes the outputs consumed by any
  transaction of the block from the given set only, and then appends the outputs of all
  transactions; an output created by the block is never removed, also when a later
  transaction of the same block consumes its key. After block 1 the set holds the
  output \<open>(id of coinbase1, 0)\<close> of \<open>alice\<close>. Block 5 is \<open>craftedCoinbase5\<close>, which
  has the same id and so creates a second output with that key, and \<open>paymentTx\<close>, by
  which \<open>alice\<close> spends the key. The block is valid; the code keeps the output of
  the crafted coinbase, and the update per transaction in block order removes it.
\<close>

theorem processTransactions_differs_from_sequentialUpdate:
  "processTransactions tableCrypto [craftedCoinbase5, paymentTx] (unspentTxOuts localNode) 5 =
     Inr [\<lparr>txOutId_u = id_tx genesisTransaction, txOutIndex_u = 0,
           address_u = genesisAddress, amount_u = 50\<rparr>,
          \<lparr>txOutId_u = id_tx coinbase1, txOutIndex_u = 0,
           address_u = drop 16 alice, amount_u = 50\<rparr>,
          \<lparr>txOutId_u = id_tx paymentTx, txOutIndex_u = 0, address_u = bob, amount_u = 30\<rparr>,
          \<lparr>txOutId_u = id_tx paymentTx, txOutIndex_u = 1, address_u = alice, amount_u = 20\<rparr>]
   \<and> sequentialUpdate [craftedCoinbase5, paymentTx] (unspentTxOuts localNode) =
       [\<lparr>txOutId_u = id_tx genesisTransaction, txOutIndex_u = 0,
         address_u = genesisAddress, amount_u = 50\<rparr>,
        \<lparr>txOutId_u = id_tx paymentTx, txOutIndex_u = 0, address_u = bob, amount_u = 30\<rparr>,
        \<lparr>txOutId_u = id_tx paymentTx, txOutIndex_u = 1, address_u = alice, amount_u = 20\<rparr>]
   \<and> processTransactions tableCrypto [craftedCoinbase5, paymentTx] (unspentTxOuts localNode) 5
       \<noteq> Inr (sequentialUpdate [craftedCoinbase5, paymentTx] (unspentTxOuts localNode))"
  using crafted_batch crafted_sequential by simp

text \<open>
  C3, amended. \<open>processTransactions\<close> either fails with the error
  \<open>InvalidBlockTransactions\<close>, and then \<open>addBlock\<close> leaves the node as it was, or
  returns the given set without every output whose key is consumed by an input of any
  transaction of the block, followed by one new output per \<open>TxOut\<close> of every
  transaction in block order, with \<open>txOutId = tx.id\<close> and \<open>txOutIndex\<close> the position
  of the \<open>TxOut\<close>. When no input refers to an output that an earlier transaction of
  the same block creates, this is the set obtained by updating per transaction in block
  order.
\<close>

theorem processTransactions_batch_update:
  "(processTransactions c txs u blockIndex = Inl InvalidBlockTransactions
    \<or> processTransactions c txs u blockIndex =
        Inr (filter (\<lambda>uTxO. \<not> spentBy (concat (map txIns txs)) uTxO) u
             @ concat (map createdOutputs txs)))
   \<and> (noSpendWithinBlock txs \<longrightarrow>
        processTransactions c txs u blockIndex \<noteq> Inl InvalidBlockTransactions \<longrightarrow>
        processTransactions c txs u blockIndex = Inr (sequentialUpdate txs u))
   \<and> (processTransactions c (transactions b) (unspentTxOuts st) (index b)
         = Inl InvalidBlockTransactions \<longrightarrow>
        snd (addBlock c now st b) = st)"
  using sequentialUpdate_batch [of txs u] addBlock_throw_unchanged [of c b st _ now]
  by (auto simp: processTransactions_def updateUnspentTxOuts_batch)

theorem processTransactions_batch_update_witness:
  "noSpendWithinBlock [coinbase2, paymentTx]
   \<and> processTransactions tableCrypto [coinbase2, paymentTx] aliceUnspentTxOuts 2
       = Inr (sequentialUpdate [coinbase2, paymentTx] aliceUnspentTxOuts)
   \<and> sequentialUpdate [coinbase2, paymentTx] aliceUnspentTxOuts =
       [\<lparr>txOutId_u = id_tx coinbase2, txOutIndex_u = 0, address_u = alice, amount_u = 50\<rparr>,
        \<lparr>txOutId_u = id_tx paymentTx, txOutIndex_u = 0, address_u = bob, amount_u = 30\<rparr>,
        \<lparr>txOutId_u = id_tx paymentTx, txOutIndex_u = 1, address_u = alice, amount_u = 20\<rparr>]
   \<and> validateNewBlock tableCrypto 1734667281000 (forkBlock1\<lparr>transactions := [coinbase2]\<rparr>)
        genesisBlock
   \<and> processTransactions tableCrypto
        (transactions (forkBlock1\<lparr>transactions := [coinbase2]\<rparr>)) (unspentTxOuts initialNode)
        (index (forkBlock1\<lparr>transactions := [coinbase2]\<rparr>)) = Inl InvalidBlockTransactions
   \<and> snd (addBlock tableCrypto 1734667281000 initialNode
             (forkBlock1\<lparr>transactions := [coinbase2]\<rparr>)) = initialNode"
proof -
  have fails: "processTransactions tableCrypto
        (transactions (forkBlock1\<lparr>transactions := [coinbase2]\<rparr>)) (unspentTxOuts initialNode)
        (index (forkBlock1\<lparr>transactions := [coinbase2]\<rparr>)) = Inl InvalidBlockTransactions"
    using wrongCoinbase_block by (simp add: forkBlock1_def initialNode_def)
  have ok: "processTransactions tableCrypto [coinbase2, paymentTx] aliceUnspentTxOuts 2
      \<noteq> Inl InvalidBlockTransactions"
    using payment_batch by simp
  have seq: "processTransactions tableCrypto [coinbase2, paymentTx] aliceUnspentTxOuts 2
       = Inr (sequentialUpdate [coinbase2, paymentTx] aliceUnspentTxOuts)"
    using processTransactions_batch_update
      [of tableCrypto "[coinbase2, paymentTx]" aliceUnspentTxOuts 2] payment_noSpend ok
    by blast
  have unchanged: "snd (addBlock tableCrypto 1734667281000 initialNode
             (forkBlock1\<lparr>transactions := [coinbase2]\<rparr>)) = initialNode"
    using processTransactions_batch_update
      [of tableCrypto _ _ _ "forkBlock1\<lparr>transactions := [coinbase2]\<rparr>" initialNode
         1734667281000] fails
    by blast
  show ?thesis
    using payment_noSpend seq payment_batch wrongCoinbase_block fails unchanged by simp
qed

section \<open>Coinbase transactions\<close>

lemma length_one_iff: "length xs = Suc 0 \<longleftrightarrow> (\<exists>x. xs = [x])"
  by (cases xs) auto

lemma getCoinbaseTransaction_valid:
  "validateCoinbaseTx c (Some (getCoinbaseTransaction c a blockIndex)) blockIndex"
  by (simp add: validateCoinbaseTx_def getCoinbaseTransaction_def getTransactionId_def Let_def)

lemma oddCoinbase_valid: "validateCoinbaseTx tableCrypto (Some oddCoinbase) 1"
  by (simp add: tx_defs data_defs oddCoinbase_def)

lemma oddCoinbase_address: "\<not> validateAddress (address (hd (txOuts oddCoinbase)))"
  by (simp add: validateAddress_def oddCoinbase_def)

text \<open>
  C5, as the claim states it, fails: \<open>validateCoinbaseTx\<close> looks neither at the
  \<open>txOutId\<close> nor at the \<open>signature\<close> of the input, nor at the address of the
  output. \<open>oddCoinbase\<close> has the input \<open>(abc, 1)\<close> with the signature \<open>zz\<close> and pays
  50 to the string \<open>anyone\<close>; it is a valid coinbase for block 1.
\<close>

theorem validateCoinbaseTx_accepts_nonempty_txOutId:
  "validateCoinbaseTx tableCrypto (Some oddCoinbase) 1
   \<and> txOutId (hd (txIns oddCoinbase)) = ''abc''
   \<and> signature (hd (txIns oddCoinbase)) = ''zz''
   \<and> \<not> validateAddress (address (hd (txOuts oddCoinbase)))"
  using oddCoinbase_valid oddCoinbase_address by (simp add: oddCoinbase_def)

text \<open>
  C5, amended. \<open>validateCoinbaseTx(transaction, blockIndex)\<close> returns true if and only
  if the transaction is present, its id matches the transaction-id derivation, it has
  exactly one \<open>TxIn\<close>, whose \<open>txOutIndex\<close> is \<open>blockIndex\<close>, and exactly one
  \<open>TxOut\<close>, whose amount is \<open>COINBASE_AMOUNT = 50\<close>; the \<open>txOutId\<close> and the
  \<open>signature\<close> of the input and the address of the output may be any strings. The
  transaction that \<open>getCoinbaseTransaction\<close> builds for a block index is valid for it.
\<close>

theorem validateCoinbaseTx_iff:
  "(validateCoinbaseTx c t blockIndex \<longleftrightarrow>
     (\<exists>transaction txIn txOut.
        t = Some transaction
        \<and> getTransactionId c transaction = id_tx transaction
        \<and> txIns transaction = [txIn] \<and> txOutIndex txIn = blockIndex
        \<and> txOuts transaction = [txOut] \<and> amount txOut = 50))
   \<and> validateCoinbaseTx c (Some (getCoinbaseTransaction c a blockIndex)) blockIndex"
proof (cases t)
  case None
  have "\<not> validateCoinbaseTx c None blockIndex"
    by (simp add: validateCoinbaseTx_def)
  then show ?thesis
    using None getCoinbaseTransaction_valid by simp
next
  case (Some transaction)
  have "validateCoinbaseTx c (Some transaction) blockIndex \<longleftrightarrow>
      getTransactionId c transaction = id_tx transaction
      \<and> (\<exists>txIn. txIns transaction = [txIn] \<and> txOutIndex txIn = blockIndex)
      \<and> (\<exists>txOut. txOuts transaction = [txOut] \<and> amount txOut = 50)"
    by (auto simp: validateCoinbaseTx_def COINBASE_AMOUNT_def length_one_iff)
  then show ?thesis
    using Some getCoinbaseTransaction_valid by auto
qed

section \<open>Difficulty retargeting\<close>





text \<open>The thresholds \<open>timeExpected / 2\<close> and \<open>timeExpected * 2\<close> are 50 and 200.\<close>

lemma retarget_seconds:
  "retarget adj lst =
     (if timeTaken adj lst < 50 then difficulty adj + 1
      else if 200 < timeTaken adj lst then difficulty adj - 1
      else difficulty adj)"
  by (simp add: retarget_def BLOCK_GENERATION_INTERVAL_def DIFFICULTY_ADJUSTMENT_INTERVAL_def
        roundToDouble_numeral)







text \<open>
  Outside that range the roundings of the two quotients show: from a block stamped
  14,002 ms to a block stamped 64,002 ms, exactly 50 s later, the code computes
  \<open>49.99999999999999\<close> and raises the difficulty.
\<close>

lemma timeTaken_rounds:
  "timeTaken (stampedBlock 1 14002 3) (stampedBlock 10 64002 3)
     = 7036874417766399 / 140737488355328
   \<and> timeTaken (stampedBlock 1 14002 3) (stampedBlock 10 64002 3) < 50
   \<and> timestamp (stampedBlock 10 64002 3) - timestamp (stampedBlock 1 14002 3) = 50000
   \<and> retarget (stampedBlock 1 14002 3) (stampedBlock 10 64002 3) = 4"
proof -
  have a: "roundToDouble (32001 / 500) = 4503740364858851 / 70368744177664"
    using roundToDouble_normal [of "64002 / 1000" 6]
      roundHalfEven_nearest [of "64002 / 1000 * 70368744177664" 4503740364858851]
    by (simp add: power_int_minus)
  have b: "roundToDouble (7001 / 500) = 7882425247805211 / 562949953421312"
    using roundToDouble_normal [of "14002 / 1000" 3]
      roundHalfEven_nearest [of "14002 / 1000 * 562949953421312" 7882425247805211]
    by (simp add: power_int_minus)
  have c: "roundToDouble (28147497671065597 / 562949953421312)
      = 7036874417766399 / 140737488355328"
    using roundToDouble_normal [of "28147497671065597 / 562949953421312" 5]
      roundHalfEven_nearest
        [of "28147497671065597 / 562949953421312 * 140737488355328" 7036874417766399]
    by (simp add: power_int_minus)
  have t: "timeTaken (stampedBlock 1 14002 3) (stampedBlock 10 64002 3)
      = 7036874417766399 / 140737488355328"
    by (simp add: timeTaken_def stampedBlock_def a b c)
  show ?thesis
    unfolding retarget_seconds t by (simp add: stampedBlock_def)
qed






section \<open>Admission to the transaction pool\<close>

lemma isValidTxForPool_iff:
  "isValidTxForPool tx pool \<longleftrightarrow>
     (\<forall>p \<in> set pool. \<forall>i \<in> set (txIns p). \<forall>j \<in> set (txIns tx). inputKey i \<noteq> inputKey j)"
proof
  assume v: "isValidTxForPool tx pool"
  show "\<forall>p \<in> set pool. \<forall>i \<in> set (txIns p). \<forall>j \<in> set (txIns tx). inputKey i \<noteq> inputKey j"
  proof (intro ballI notI)
    fix p i j
    assume p: "p \<in> set pool" and i: "i \<in> set (txIns p)" and j: "j \<in> set (txIns tx)"
      and eq: "inputKey i = inputKey j"
    from v j have "\<not> list_ex (\<lambda>txPoolIn. txOutIndex j = txOutIndex txPoolIn
        \<and> txOutId j = txOutId txPoolIn) (concat (map txIns pool))"
      by (simp add: isValidTxForPool_def getTxPoolIns_def list_all_iff)
    moreover from p i have "i \<in> set (concat (map txIns pool))" by auto
    ultimately show False
      using eq unfolding list_ex_iff inputKey_def by (metis prod.inject)
  qed
next
  assume r: "\<forall>p \<in> set pool. \<forall>i \<in> set (txIns p). \<forall>j \<in> set (txIns tx). inputKey i \<noteq> inputKey j"
  show "isValidTxForPool tx pool"
    unfolding isValidTxForPool_def getTxPoolIns_def Let_def list_all_iff list_ex_iff
  proof (intro ballI notI)
    fix j
    assume j: "j \<in> set (txIns tx)"
      and "\<exists>i \<in> set (concat (map txIns pool)). txOutIndex j = txOutIndex i \<and> txOutId j = txOutId i"
    then obtain i where i: "i \<in> set (concat (map txIns pool))"
      and eq: "inputKey i = inputKey j" unfolding inputKey_def by metis
    from i obtain p where "p \<in> set pool" "i \<in> set (txIns p)" by auto
    with r j eq show False by blast
  qed
qed

lemma paymentTx_valid: "validateTransaction tableCrypto paymentTx aliceUnspentTxOuts"
  by (simp add: tx_defs data_defs paymentTx_def aliceUnspentTxOuts_def)

text \<open>
  C7. \<open>addToTransactionPool(tx, u)\<close> appends \<open>tx\<close> to the pool if and only if
  \<open>validateTransaction(tx, u)\<close> succeeds and no input of a transaction in the pool has
  the key \<open>(txOutId, txOutIndex)\<close> of an input of \<open>tx\<close>; in every other case it
  throws and the pool is as it was.
\<close>

theorem addToTransactionPool_admits_iff:
  "(addToTransactionPool c tx u pool = (Inr (), pool @ [tx]) \<longleftrightarrow>
      validateTransaction c tx u
      \<and> (\<forall>p \<in> set pool. \<forall>i \<in> set (txIns p). \<forall>j \<in> set (txIns tx). inputKey i \<noteq> inputKey j))
   \<and> (addToTransactionPool c tx u pool \<noteq> (Inr (), pool @ [tx]) \<longrightarrow>
        addToTransactionPool c tx u pool = (Inl InvalidPoolTx, pool))"
proof -
  have "addToTransactionPool c tx u pool =
      (if validateTransaction c tx u \<and> isValidTxForPool tx pool then (Inr (), pool @ [tx])
       else (Inl InvalidPoolTx, pool))"
    by (simp add: addToTransactionPool_def)
  then show ?thesis
    unfolding isValidTxForPool_iff by (simp split: if_splits)
qed

theorem addToTransactionPool_admits_iff_witness:
  "validateTransaction tableCrypto paymentTx aliceUnspentTxOuts
   \<and> addToTransactionPool tableCrypto paymentTx aliceUnspentTxOuts [] = (Inr (), [paymentTx])
   \<and> addToTransactionPool tableCrypto paymentTx aliceUnspentTxOuts [paymentTx]
       = (Inl InvalidPoolTx, [paymentTx])"
proof -
  have admitted:
    "addToTransactionPool tableCrypto paymentTx aliceUnspentTxOuts [] = (Inr (), [] @ [paymentTx])"
    using addToTransactionPool_admits_iff [of tableCrypto paymentTx aliceUnspentTxOuts "[]"]
      paymentTx_valid by simp
  have "\<not> (\<forall>p \<in> set [paymentTx]. \<forall>i \<in> set (txIns p). \<forall>j \<in> set (txIns paymentTx).
           inputKey i \<noteq> inputKey j)"
    by (simp add: paymentTx_def)
  then have "addToTransactionPool tableCrypto paymentTx aliceUnspentTxOuts [paymentTx]
       = (Inl InvalidPoolTx, [paymentTx])"
    using addToTransactionPool_admits_iff
      [of tableCrypto paymentTx aliceUnspentTxOuts "[paymentTx]"] by blast
  then show ?thesis
    using admitted paymentTx_valid by simp
qed

section \<open>Building a transaction\<close>





















text \<open>
  The running total of \<open>findTxOutsForAmount\<close> rounds: outputs of \<open>2 ^ 53\<close>, 1 and 1
  add up to \<open>2 ^ 53 + 2\<close>, the code stays at \<open>2 ^ 53\<close> and throws.
\<close>

lemma findTxOutsForAmount_rounds:
  "totalAmount largeUnspentTxOuts = 2 ^ 53 + 2
   \<and> findTxOutsForAmount (2 ^ 53 + 2) largeUnspentTxOuts = Inl NotEnoughCoins"
proof -
  have "roundToDouble (of_int 9007199254740993) = of_int 9007199254740992"
    using roundToDouble_above_2_53(1) by simp
  then have "roundToInteger 9007199254740993 = \<lfloor>of_int 9007199254740992 :: rat\<rfloor>"
    by (simp only: roundToInteger_def)
  then have r: "roundToInteger 9007199254740993 = 9007199254740992"
    by (simp only: floor_of_int)
  show ?thesis
    by (simp add: findTxOutsForAmount_def largeUnspentTxOuts_def totalAmount_def
          roundToInteger_exact r)
qed




section \<open>Duplicate inputs in a block\<close>

lemma coinbase1_valid: "validateCoinbaseTx tableCrypto (Some coinbase1) 1"
  by (simp add: tx_defs data_defs)

lemma collidingTx_duplicates: "hasDuplicates (concat (map txIns [coinbase1, collidingTx]))"
  by (simp add: tx_defs coinbase1_def collidingTx_def)

lemma collidingTx_valid: "validateTransaction tableCrypto collidingTx collidingUnspentTxOuts"
  by (simp add: tx_defs data_defs collidingTx_def collidingUnspentTxOuts_def)

lemma collidingTx_keys:
  "map inputKey (concat (map txIns [coinbase1, collidingTx]))
     = [([], 1), (''a1'', 2), (''a'', 12)]"
  by (simp add: inputKey_def coinbase1_def collidingTx_def)

text \<open>
  C10. The inputs of the block \<open>[coinbase1, collidingTx]\<close> refer to the pairwise
  distinct keys \<open>('', 1)\<close>, \<open>(a1, 2)\<close> and \<open>(a, 12)\<close>; the coinbase is valid for block
  1 and \<open>collidingTx\<close> is a valid transaction against the set that holds its two
  outputs. \<open>hasDuplicates\<close> keys the inputs by the concatenation
  \<open>`${txOutId}${txOutIndex}`\<close>, which is \<open>a12\<close> for both inputs of \<open>collidingTx\<close>,
  and \<open>validateBlockTransactions\<close> rejects the block.
\<close>

theorem validateBlockTransactions_rejects_distinct_inputs:
  "map inputKey (concat (map txIns [coinbase1, collidingTx]))
     = [([], 1), (''a1'', 2), (''a'', 12)]
   \<and> distinct (map inputKey (concat (map txIns [coinbase1, collidingTx])))
   \<and> ''a1'' @ numberToString 2 = ''a12'' \<and> ''a'' @ numberToString 12 = ''a12''
   \<and> validateCoinbaseTx tableCrypto (Some coinbase1) 1
   \<and> validateTransaction tableCrypto collidingTx collidingUnspentTxOuts
   \<and> hasDuplicates (concat (map txIns [coinbase1, collidingTx]))
   \<and> validateBlockTransactions tableCrypto [coinbase1, collidingTx] collidingUnspentTxOuts 1
       = False"
  using coinbase1_valid collidingTx_valid collidingTx_duplicates collidingTx_keys
  by (simp add: validateBlockTransactions_def numberToString_def digits.simps digitChar_def)

section \<open>Transaction id\<close>

text \<open>
  C9. \<open>getTransactionId\<close> is the SHA-256 digest of the inputs' strings
  \<open>`${txOutId}${txOutIndex}`\<close> joined in order, followed by the outputs' strings
  \<open>`${address}${amount}`\<close> joined in order; the signatures of the inputs (and the
  stored id) play no part, so rewriting every signature by any function \<open>f\<close> leaves
  the id unchanged.
\<close>

theorem getTransactionId_ignores_signatures:
  "getTransactionId c t =
     sha256 c (concat (map (\<lambda>i. txOutId i @ numberToString (txOutIndex i)) (txIns t))
               @ concat (map (\<lambda>out. address out @ numberToString (amount out)) (txOuts t)))
   \<and> getTransactionId c (t\<lparr>txIns := map (\<lambda>i. i\<lparr>signature := f i\<rparr>) (txIns t)\<rparr>)
       = getTransactionId c t"
  by (simp add: getTransactionId_def txInContent_def txOutContent_def comp_def)

end
